theory Spec2Isabelle
  imports Complex_Main "HOL-Library.Multiset"
begin

section \<open>JavaScript values used by the product listing\<close>

text \<open>
  The screen \<^verbatim>\<open>Box.tsx\<close> works on strings, arrays and numbers. The strings the code
  only compares or parses as numbers (categories, option labels, sort options) are lists
  of 8-bit characters, each read as a code unit below 256; the strings it lower-cases
  (titles and the search string) are lists of UTF-16 code units. The numeric fields of a
  product arrive through JSON and are finite; a finite double is an exact rational, the
  comparison of two doubles is exact, and the sign of the rounded difference of two
  finite doubles is the sign of their exact difference. Such fields are therefore
  rationals. The results of \<^verbatim>\<open>Number\<close> and \<^verbatim>\<open>parseInt\<close> can be \<^verbatim>\<open>NaN\<close> or
  infinite and have a type of their own. A parsed literal is kept as its exact value: the
  rounding to the nearest double, and with it the overflow of a large literal to
  infinity, is not part of the model (every band of the screen is a small integer, which
  is exact).
\<close>

datatype jsnum = NaN | Fin rat | PosInf | NegInf

text \<open>The relational operators \<^verbatim>\<open>>=\<close> and \<^verbatim>\<open><=\<close>: false as soon as one side is NaN.\<close>

fun js_le :: "jsnum \<Rightarrow> jsnum \<Rightarrow> bool" where
  "js_le NaN _ = False"
| "js_le _ NaN = False"
| "js_le NegInf _ = True"
| "js_le _ PosInf = True"
| "js_le (Fin a) (Fin b) = (a \<le> b)"
| "js_le (Fin a) NegInf = False"
| "js_le PosInf (Fin b) = False"
| "js_le PosInf NegInf = False"

definition js_ge :: "jsnum \<Rightarrow> jsnum \<Rightarrow> bool" where
  "js_ge a b = js_le b a"

text \<open>\<^verbatim>\<open>ToNumber\<close> of a destructured array element: a missing element is
  \<^verbatim>\<open>undefined\<close>, which converts to NaN.\<close>

definition toNumber :: "jsnum option \<Rightarrow> jsnum" where
  "toNumber v = (case v of None \<Rightarrow> NaN | Some n \<Rightarrow> n)"

subsection \<open>Strings\<close>

text \<open>The white space and line terminator characters below 256, and the decimal
  digits, by character code.\<close>

definition isWhiteSpace :: "char \<Rightarrow> bool" where
  "isWhiteSpace c = (of_char c \<in> {9, 10, 11, 12, 13, 32, 160 :: nat})"

definition isDigit :: "char \<Rightarrow> bool" where
  "isDigit c = (48 \<le> (of_char c :: nat) \<and> (of_char c :: nat) \<le> 57)"

text \<open>The value of a hexadecimal digit, if the character is one.\<close>

definition hexValue :: "char \<Rightarrow> nat option" where
  "hexValue c = (let n = of_char c :: nat in
     if 48 \<le> n \<and> n \<le> 57 then Some (n - 48)
     else if 97 \<le> n \<and> n \<le> 102 then Some (n - 87)
     else if 65 \<le> n \<and> n \<le> 70 then Some (n - 55)
     else None)"

definition isRadixDigit :: "nat \<Rightarrow> char \<Rightarrow> bool" where
  "isRadixDigit r c = (case hexValue c of None \<Rightarrow> False | Some v \<Rightarrow> v < r)"

text \<open>The value of a digit string in radix \<open>r\<close>, most significant digit first.\<close>

definition radixValue :: "nat \<Rightarrow> string \<Rightarrow> nat" where
  "radixValue r ds = foldl (\<lambda>acc c. acc * r + (case hexValue c of None \<Rightarrow> 0 | Some v \<Rightarrow> v)) 0 ds"

text \<open>\<^verbatim>\<open>s.startsWith(t)\<close> and \<^verbatim>\<open>s.includes(t)\<close>: \<open>t\<close> occurs in \<open>s\<close> at some
  position.\<close>

fun startsWith :: "'a list \<Rightarrow> 'a list \<Rightarrow> bool" where
  "startsWith s [] = True"
| "startsWith [] (d # t) = False"
| "startsWith (c # s) (d # t) = (c = d \<and> startsWith s t)"

fun str_includes :: "'a list \<Rightarrow> 'a list \<Rightarrow> bool" where
  "str_includes [] t = (t = [])"
| "str_includes (c # s) t = (startsWith (c # s) t \<or> str_includes s t)"

text \<open>\<^verbatim>\<open>s.replace(c, '')\<close> with a string pattern of one character: only the first
  occurrence goes.\<close>

fun replaceFirst :: "char \<Rightarrow> string \<Rightarrow> string" where
  "replaceFirst c [] = []"
| "replaceFirst c (d # s) = (if d = c then s else d # replaceFirst c s)"

text \<open>\<^verbatim>\<open>s.split(c)\<close> with a separator of one character: the pieces between the
  occurrences, at least one piece (the empty string gives one empty piece).\<close>

fun str_split :: "char \<Rightarrow> string \<Rightarrow> string list" where
  "str_split c [] = [[]]"
| "str_split c (d # s) =
     (case str_split c s of
        [] \<Rightarrow> [[d]]
      | piece # pieces \<Rightarrow> if d = c then [] # piece # pieces else (d # piece) # pieces)"

definition trimStart :: "string \<Rightarrow> string" where
  "trimStart s = dropWhile isWhiteSpace s"

definition trim :: "string \<Rightarrow> string" where
  "trim s = rev (dropWhile isWhiteSpace (rev (dropWhile isWhiteSpace s)))"

subsection \<open>\<^verbatim>\<open>Number\<close> applied to a string\<close>

text \<open>
  \<^verbatim>\<open>Number(s)\<close> follows the grammar of a string numeric literal: white space around
  is dropped, the empty string is 0, a binary, octal or hexadecimal literal has a prefix
  and no sign, a decimal literal has an optional sign, then \<^verbatim>\<open>Infinity\<close> or digits
  with an optional fraction and exponent. Anything else is NaN.
\<close>

definition power10 :: "int \<Rightarrow> rat" where
  "power10 e = (if 0 \<le> e then 10 ^ nat e else 1 / 10 ^ nat (- e))"

text \<open>An exponent part: nothing, or \<^verbatim>\<open>e\<close> or \<^verbatim>\<open>E\<close>, an optional sign and at
  least one digit.\<close>

definition exponentPart :: "string \<Rightarrow> int option" where
  "exponentPart s =
     (case s of
        [] \<Rightarrow> Some 0
      | c # r \<Rightarrow>
          if c = CHR ''e'' \<or> c = CHR ''E'' then
            (let neg = (r \<noteq> [] \<and> hd r = CHR ''-'');
                 ds = (if r \<noteq> [] \<and> (hd r = CHR ''+'' \<or> hd r = CHR ''-'') then tl r else r)
             in if ds \<noteq> [] \<and> list_all isDigit ds
                then Some (if neg then - int (radixValue 10 ds) else int (radixValue 10 ds))
                else None)
          else None)"

definition unsignedDecimal :: "string \<Rightarrow> jsnum" where
  "unsignedDecimal s =
     (if s = ''Infinity'' then PosInf
      else
        let ip = takeWhile isDigit s;
            r1 = dropWhile isDigit s;
            dot = (r1 \<noteq> [] \<and> hd r1 = CHR ''.'');
            fp = (if dot then takeWhile isDigit (tl r1) else []);
            r2 = (if dot then dropWhile isDigit (tl r1) else r1)
        in if ip = [] \<and> fp = [] then NaN
           else case exponentPart r2 of
                  None \<Rightarrow> NaN
                | Some e \<Rightarrow>
                    Fin ((of_nat (radixValue 10 ip)
                          + of_nat (radixValue 10 fp) / 10 ^ length fp) * power10 e))"

definition negate :: "jsnum \<Rightarrow> jsnum" where
  "negate n = (case n of NaN \<Rightarrow> NaN | Fin q \<Rightarrow> Fin (- q) | PosInf \<Rightarrow> NegInf | NegInf \<Rightarrow> PosInf)"

definition strDecimalLiteral :: "string \<Rightarrow> jsnum" where
  "strDecimalLiteral s =
     (case s of
        [] \<Rightarrow> NaN
      | c # r \<Rightarrow>
          if c = CHR ''+'' then unsignedDecimal r
          else if c = CHR ''-'' then negate (unsignedDecimal r)
          else unsignedDecimal s)"

text \<open>A literal with a radix prefix: \<open>None\<close> when the string has no such prefix.\<close>

definition nonDecimalLiteral :: "string \<Rightarrow> jsnum option" where
  "nonDecimalLiteral s =
     (case s of
        c # p # ds \<Rightarrow>
          if c = CHR ''0'' \<and> p \<in> set ''xXoObB'' then
            (let r = (if p \<in> set ''xX'' then 16 else if p \<in> set ''oO'' then 8 else 2 :: nat)
             in Some (if ds \<noteq> [] \<and> list_all (isRadixDigit r) ds
                      then Fin (of_nat (radixValue r ds)) else NaN))
          else None
      | _ \<Rightarrow> None)"

definition Number :: "string \<Rightarrow> jsnum" where
  "Number s =
     (let t = trim s in
      if t = [] then Fin 0
      else case nonDecimalLiteral t of
             Some n \<Rightarrow> n
           | None \<Rightarrow> strDecimalLiteral t)"

subsection \<open>\<^verbatim>\<open>parseInt\<close> with no radix argument\<close>

text \<open>
  Leading white space is dropped, then an optional sign, then the prefix \<^verbatim>\<open>0x\<close> or
  \<^verbatim>\<open>0X\<close> selects radix 16 (radix 10 otherwise); the longest run of digits of that radix
  is the value, and no digit at all is NaN. What follows the digits is ignored.
\<close>

definition parseInt :: "string \<Rightarrow> jsnum" where
  "parseInt s =
     (let s1 = trimStart s;
          neg = (s1 \<noteq> [] \<and> hd s1 = CHR ''-'');
          s2 = (if s1 \<noteq> [] \<and> (hd s1 = CHR ''+'' \<or> hd s1 = CHR ''-'') then tl s1 else s1);
          hex = (startsWith s2 ''0x'' \<or> startsWith s2 ''0X'');
          r = (if hex then 16 else 10 :: nat);
          s3 = (if hex then drop 2 s2 else s2);
          z = takeWhile (isRadixDigit r) s3
      in if z = [] then NaN
         else Fin (if neg then - of_nat (radixValue r z) else of_nat (radixValue r z)))"

section \<open>Titles, search strings and \<^verbatim>\<open>toLowerCase\<close>\<close>

text \<open>
  A title and the search string are sequences of UTF-16 code units, numbers below 65536.
  An 8-bit string is read as the code units of its characters.
\<close>

type_synonym jsstring = "nat list"

definition utf16 :: "string \<Rightarrow> jsstring" where
  "utf16 s = map of_char s"

text \<open>A string as code points: a high surrogate followed by a low surrogate is one code
  point beyond the basic plane, every other code unit is a code point by itself. And
  back.\<close>

definition isHighSurrogate :: "nat \<Rightarrow> bool" where
  "isHighSurrogate u = (55296 \<le> u \<and> u \<le> 56319)"

definition isLowSurrogate :: "nat \<Rightarrow> bool" where
  "isLowSurrogate u = (56320 \<le> u \<and> u \<le> 57343)"

fun codePoints :: "jsstring \<Rightarrow> nat list" where
  "codePoints (u # v # s) =
     (if isHighSurrogate u \<and> isLowSurrogate v
      then (65536 + (u - 55296) * 1024 + (v - 56320)) # codePoints s
      else u # codePoints (v # s))"
| "codePoints s = s"

definition unitsOf :: "nat \<Rightarrow> jsstring" where
  "unitsOf c =
     (if 65536 \<le> c then [55296 + (c - 65536) div 1024, 56320 + (c - 65536) mod 1024]
      else [c])"

definition codeUnits :: "nat list \<Rightarrow> jsstring" where
  "codeUnits cs = concat (map unitsOf cs)"

text \<open>
  The lower-case mappings of the Unicode Character Database (version 14.0), in runs: a
  run \<open>(lo, hi, step, target)\<close> maps the code points \<open>lo\<close>, \<open>lo + step\<close>, ... up to
  \<open>hi\<close> to \<open>target\<close>, \<open>target + step\<close>, ... The first run is the letters A to Z.
\<close>

definition lowerRunsBeyondAscii :: "(nat \<times> nat \<times> nat \<times> nat) list" where
  "lowerRunsBeyondAscii =
     [(192, 214, 1, 224), (216, 222, 1, 248), (256, 302, 2, 257), (306, 310, 2, 307),
      (313, 327, 2, 314), (330, 374, 2, 331), (376, 376, 1, 255), (377, 381, 2, 378),
      (385, 385, 1, 595), (386, 388, 2, 387), (390, 390, 1, 596), (391, 391, 1, 392),
      (393, 394, 1, 598), (395, 395, 1, 396), (398, 398, 1, 477), (399, 399, 1, 601),
      (400, 400, 1, 603), (401, 401, 1, 402), (403, 403, 1, 608), (404, 404, 1, 611),
      (406, 406, 1, 617), (407, 407, 1, 616), (408, 408, 1, 409), (412, 412, 1, 623),
      (413, 413, 1, 626), (415, 415, 1, 629), (416, 420, 2, 417), (422, 422, 1, 640),
      (423, 423, 1, 424), (425, 425, 1, 643), (428, 428, 1, 429), (430, 430, 1, 648),
      (431, 431, 1, 432), (433, 434, 1, 650), (435, 437, 2, 436), (439, 439, 1, 658),
      (440, 440, 1, 441), (444, 444, 1, 445), (452, 452, 1, 454), (453, 453, 1, 454),
      (455, 455, 1, 457), (456, 456, 1, 457), (458, 458, 1, 460), (459, 475, 2, 460),
      (478, 494, 2, 479), (497, 497, 1, 499), (498, 500, 2, 499), (502, 502, 1, 405),
      (503, 503, 1, 447), (504, 542, 2, 505), (544, 544, 1, 414), (546, 562, 2, 547),
      (570, 570, 1, 11365), (571, 571, 1, 572), (573, 573, 1, 410), (574, 574, 1, 11366),
      (577, 577, 1, 578), (579, 579, 1, 384), (580, 580, 1, 649), (581, 581, 1, 652),
      (582, 590, 2, 583), (880, 882, 2, 881), (886, 886, 1, 887), (895, 895, 1, 1011),
      (902, 902, 1, 940), (904, 906, 1, 941), (908, 908, 1, 972), (910, 911, 1, 973),
      (913, 929, 1, 945), (931, 939, 1, 963), (975, 975, 1, 983), (984, 1006, 2, 985),
      (1012, 1012, 1, 952), (1015, 1015, 1, 1016), (1017, 1017, 1, 1010), (1018, 1018, 1, 1019),
      (1021, 1023, 1, 891), (1024, 1039, 1, 1104), (1040, 1071, 1, 1072), (1120, 1152, 2, 1121),
      (1162, 1214, 2, 1163), (1216, 1216, 1, 1231), (1217, 1229, 2, 1218), (1232, 1326, 2, 1233),
      (1329, 1366, 1, 1377), (4256, 4293, 1, 11520), (4295, 4295, 1, 11559), (4301, 4301, 1, 11565),
      (5024, 5103, 1, 43888), (5104, 5109, 1, 5112), (7312, 7354, 1, 4304), (7357, 7359, 1, 4349),
      (7680, 7828, 2, 7681), (7838, 7838, 1, 223), (7840, 7934, 2, 7841), (7944, 7951, 1, 7936),
      (7960, 7965, 1, 7952), (7976, 7983, 1, 7968), (7992, 7999, 1, 7984), (8008, 8013, 1, 8000),
      (8025, 8031, 2, 8017), (8040, 8047, 1, 8032), (8072, 8079, 1, 8064), (8088, 8095, 1, 8080),
      (8104, 8111, 1, 8096), (8120, 8121, 1, 8112), (8122, 8123, 1, 8048), (8124, 8124, 1, 8115),
      (8136, 8139, 1, 8050), (8140, 8140, 1, 8131), (8152, 8153, 1, 8144), (8154, 8155, 1, 8054),
      (8168, 8169, 1, 8160), (8170, 8171, 1, 8058), (8172, 8172, 1, 8165), (8184, 8185, 1, 8056),
      (8186, 8187, 1, 8060), (8188, 8188, 1, 8179), (8486, 8486, 1, 969), (8490, 8490, 1, 107),
      (8491, 8491, 1, 229), (8498, 8498, 1, 8526), (8544, 8559, 1, 8560), (8579, 8579, 1, 8580),
      (9398, 9423, 1, 9424), (11264, 11311, 1, 11312), (11360, 11360, 1, 11361), (11362, 11362, 1, 619),
      (11363, 11363, 1, 7549), (11364, 11364, 1, 637), (11367, 11371, 2, 11368), (11373, 11373, 1, 593),
      (11374, 11374, 1, 625), (11375, 11375, 1, 592), (11376, 11376, 1, 594), (11378, 11378, 1, 11379),
      (11381, 11381, 1, 11382), (11390, 11391, 1, 575), (11392, 11490, 2, 11393), (11499, 11501, 2, 11500),
      (11506, 11506, 1, 11507), (42560, 42604, 2, 42561), (42624, 42650, 2, 42625), (42786, 42798, 2, 42787),
      (42802, 42862, 2, 42803), (42873, 42875, 2, 42874), (42877, 42877, 1, 7545), (42878, 42886, 2, 42879),
      (42891, 42891, 1, 42892), (42893, 42893, 1, 613), (42896, 42898, 2, 42897), (42902, 42920, 2, 42903),
      (42922, 42922, 1, 614), (42923, 42923, 1, 604), (42924, 42924, 1, 609), (42925, 42925, 1, 620),
      (42926, 42926, 1, 618), (42928, 42928, 1, 670), (42929, 42929, 1, 647), (42930, 42930, 1, 669),
      (42931, 42931, 1, 43859), (42932, 42946, 2, 42933), (42948, 42948, 1, 42900), (42949, 42949, 1, 642),
      (42950, 42950, 1, 7566), (42951, 42953, 2, 42952), (42960, 42960, 1, 42961), (42966, 42968, 2, 42967),
      (42997, 42997, 1, 42998), (65313, 65338, 1, 65345), (66560, 66599, 1, 66600), (66736, 66771, 1, 66776),
      (66928, 66938, 1, 66967), (66940, 66954, 1, 66979), (66956, 66962, 1, 66995), (66964, 66965, 1, 67003),
      (68736, 68786, 1, 68800), (71840, 71871, 1, 71872), (93760, 93791, 1, 93792), (125184, 125217, 1, 125218)]"

definition lowerRuns :: "(nat \<times> nat \<times> nat \<times> nat) list" where
  "lowerRuns = (65, 90, 1, 97) # lowerRunsBeyondAscii"

fun lowerIn :: "(nat \<times> nat \<times> nat \<times> nat) list \<Rightarrow> nat \<Rightarrow> nat" where
  "lowerIn [] c = c"
| "lowerIn ((lo, hi, step, target) # runs) c =
     (if lo \<le> c \<and> c \<le> hi \<and> (c - lo) mod step = 0 then target + (c - lo)
      else lowerIn runs c)"

text \<open>The one mapping to more than one code point: capital I with dot above, U+0130,
  becomes small i and a combining dot above.\<close>

definition lowerCodePoint :: "nat \<Rightarrow> nat list" where
  "lowerCodePoint c = (if c = 304 then [105, 775] else [lowerIn lowerRuns c])"

text \<open>
  The code points that are case-ignorable, and the cased letters among the others
  (same version of the database).
\<close>

definition casedRanges :: "(nat \<times> nat) list" where
  "casedRanges =
     [(65, 90), (97, 122), (170, 170), (181, 181), (186, 186), (192, 214),
      (216, 246), (248, 442), (444, 447), (452, 659), (661, 687), (880, 883),
      (886, 887), (891, 893), (895, 895), (902, 902), (904, 906), (908, 908),
      (910, 929), (931, 1013), (1015, 1153), (1162, 1327), (1329, 1366), (1376, 1416),
      (4256, 4293), (4295, 4295), (4301, 4301), (4304, 4346), (4349, 4351), (5024, 5109),
      (5112, 5117), (7296, 7304), (7312, 7354), (7357, 7359), (7424, 7467), (7531, 7543),
      (7545, 7578), (7680, 7957), (7960, 7965), (7968, 8005), (8008, 8013), (8016, 8023),
      (8025, 8025), (8027, 8027), (8029, 8029), (8031, 8061), (8064, 8116), (8118, 8124),
      (8126, 8126), (8130, 8132), (8134, 8140), (8144, 8147), (8150, 8155), (8160, 8172),
      (8178, 8180), (8182, 8188), (8450, 8450), (8455, 8455), (8458, 8467), (8469, 8469),
      (8473, 8477), (8484, 8484), (8486, 8486), (8488, 8488), (8490, 8493), (8495, 8500),
      (8505, 8505), (8508, 8511), (8517, 8521), (8526, 8526), (8544, 8575), (8579, 8580),
      (9398, 9449), (11264, 11387), (11390, 11492), (11499, 11502), (11506, 11507), (11520, 11557),
      (11559, 11559), (11565, 11565), (42560, 42605), (42624, 42651), (42786, 42863), (42865, 42887),
      (42891, 42894), (42896, 42954), (42960, 42961), (42963, 42963), (42965, 42969), (42997, 42998),
      (43002, 43002), (43824, 43866), (43872, 43880), (43888, 43967), (64256, 64262), (64275, 64279),
      (65313, 65338), (65345, 65370), (66560, 66639), (66736, 66771), (66776, 66811), (66928, 66938),
      (66940, 66954), (66956, 66962), (66964, 66965), (66967, 66977), (66979, 66993), (66995, 67001),
      (67003, 67004), (68736, 68786), (68800, 68850), (71840, 71903), (93760, 93823), (119808, 119892),
      (119894, 119964), (119966, 119967), (119970, 119970), (119973, 119974), (119977, 119980), (119982, 119993),
      (119995, 119995), (119997, 120003), (120005, 120069), (120071, 120074), (120077, 120084), (120086, 120092),
      (120094, 120121), (120123, 120126), (120128, 120132), (120134, 120134), (120138, 120144), (120146, 120485),
      (120488, 120512), (120514, 120538), (120540, 120570), (120572, 120596), (120598, 120628), (120630, 120654),
      (120656, 120686), (120688, 120712), (120714, 120744), (120746, 120770), (120772, 120779), (122624, 122633),
      (122635, 122654), (125184, 125251), (127280, 127305), (127312, 127337), (127344, 127369)]"

definition caseIgnorableRanges :: "(nat \<times> nat) list" where
  "caseIgnorableRanges =
     [(39, 39), (46, 46), (58, 58), (94, 94), (96, 96), (168, 168),
      (173, 173), (175, 175), (180, 180), (183, 184), (688, 879), (884, 885),
      (890, 890), (900, 901), (903, 903), (1155, 1161), (1369, 1369), (1375, 1375),
      (1425, 1469), (1471, 1471), (1473, 1474), (1476, 1477), (1479, 1479), (1524, 1524),
      (1536, 1541), (1552, 1562), (1564, 1564), (1600, 1600), (1611, 1631), (1648, 1648),
      (1750, 1757), (1759, 1768), (1770, 1773), (1807, 1807), (1809, 1809), (1840, 1866),
      (1958, 1968), (2027, 2037), (2042, 2042), (2045, 2045), (2070, 2093), (2137, 2139),
      (2184, 2184), (2192, 2193), (2200, 2207), (2249, 2306), (2362, 2362), (2364, 2364),
      (2369, 2376), (2381, 2381), (2385, 2391), (2402, 2403), (2417, 2417), (2433, 2433),
      (2492, 2492), (2497, 2500), (2509, 2509), (2530, 2531), (2558, 2558), (2561, 2562),
      (2620, 2620), (2625, 2626), (2631, 2632), (2635, 2637), (2641, 2641), (2672, 2673),
      (2677, 2677), (2689, 2690), (2748, 2748), (2753, 2757), (2759, 2760), (2765, 2765),
      (2786, 2787), (2810, 2815), (2817, 2817), (2876, 2876), (2879, 2879), (2881, 2884),
      (2893, 2893), (2901, 2902), (2914, 2915), (2946, 2946), (3008, 3008), (3021, 3021),
      (3072, 3072), (3076, 3076), (3132, 3132), (3134, 3136), (3142, 3144), (3146, 3149),
      (3157, 3158), (3170, 3171), (3201, 3201), (3260, 3260), (3263, 3263), (3270, 3270),
      (3276, 3277), (3298, 3299), (3328, 3329), (3387, 3388), (3393, 3396), (3405, 3405),
      (3426, 3427), (3457, 3457), (3530, 3530), (3538, 3540), (3542, 3542), (3633, 3633),
      (3636, 3642), (3654, 3662), (3761, 3761), (3764, 3772), (3782, 3782), (3784, 3789),
      (3864, 3865), (3893, 3893), (3895, 3895), (3897, 3897), (3953, 3966), (3968, 3972),
      (3974, 3975), (3981, 3991), (3993, 4028), (4038, 4038), (4141, 4144), (4146, 4151),
      (4153, 4154), (4157, 4158), (4184, 4185), (4190, 4192), (4209, 4212), (4226, 4226),
      (4229, 4230), (4237, 4237), (4253, 4253), (4348, 4348), (4957, 4959), (5906, 5908),
      (5938, 5939), (5970, 5971), (6002, 6003), (6068, 6069), (6071, 6077), (6086, 6086),
      (6089, 6099), (6103, 6103), (6109, 6109), (6155, 6159), (6211, 6211), (6277, 6278),
      (6313, 6313), (6432, 6434), (6439, 6440), (6450, 6450), (6457, 6459), (6679, 6680),
      (6683, 6683), (6742, 6742), (6744, 6750), (6752, 6752), (6754, 6754), (6757, 6764),
      (6771, 6780), (6783, 6783), (6823, 6823), (6832, 6862), (6912, 6915), (6964, 6964),
      (6966, 6970), (6972, 6972), (6978, 6978), (7019, 7027), (7040, 7041), (7074, 7077),
      (7080, 7081), (7083, 7085), (7142, 7142), (7144, 7145), (7149, 7149), (7151, 7153),
      (7212, 7219), (7222, 7223), (7288, 7293), (7376, 7378), (7380, 7392), (7394, 7400),
      (7405, 7405), (7412, 7412), (7416, 7417), (7468, 7530), (7544, 7544), (7579, 7679),
      (8125, 8125), (8127, 8129), (8141, 8143), (8157, 8159), (8173, 8175), (8189, 8190),
      (8203, 8207), (8216, 8217), (8228, 8228), (8231, 8231), (8234, 8238), (8288, 8292),
      (8294, 8303), (8305, 8305), (8319, 8319), (8336, 8348), (8400, 8432), (11388, 11389),
      (11503, 11505), (11631, 11631), (11647, 11647), (11744, 11775), (11823, 11823), (12293, 12293),
      (12330, 12333), (12337, 12341), (12347, 12347), (12441, 12446), (12540, 12542), (40981, 40981),
      (42232, 42237), (42508, 42508), (42607, 42610), (42612, 42621), (42623, 42623), (42652, 42655),
      (42736, 42737), (42752, 42785), (42864, 42864), (42888, 42890), (42994, 42996), (43000, 43001),
      (43010, 43010), (43014, 43014), (43019, 43019), (43045, 43046), (43052, 43052), (43204, 43205),
      (43232, 43249), (43263, 43263), (43302, 43309), (43335, 43345), (43392, 43394), (43443, 43443),
      (43446, 43449), (43452, 43453), (43471, 43471), (43493, 43494), (43561, 43566), (43569, 43570),
      (43573, 43574), (43587, 43587), (43596, 43596), (43632, 43632), (43644, 43644), (43696, 43696),
      (43698, 43700), (43703, 43704), (43710, 43711), (43713, 43713), (43741, 43741), (43756, 43757),
      (43763, 43764), (43766, 43766), (43867, 43871), (43881, 43883), (44005, 44005), (44008, 44008),
      (44013, 44013), (64286, 64286), (64434, 64450), (65024, 65039), (65043, 65043), (65056, 65071),
      (65106, 65106), (65109, 65109), (65279, 65279), (65287, 65287), (65294, 65294), (65306, 65306),
      (65342, 65342), (65344, 65344), (65392, 65392), (65438, 65439), (65507, 65507), (65529, 65531),
      (66045, 66045), (66272, 66272), (66422, 66426), (67456, 67461), (67463, 67504), (67506, 67514),
      (68097, 68099), (68101, 68102), (68108, 68111), (68152, 68154), (68159, 68159), (68325, 68326),
      (68900, 68903), (69291, 69292), (69446, 69456), (69506, 69509), (69633, 69633), (69688, 69702),
      (69744, 69744), (69747, 69748), (69759, 69761), (69811, 69814), (69817, 69818), (69821, 69821),
      (69826, 69826), (69837, 69837), (69888, 69890), (69927, 69931), (69933, 69940), (70003, 70003),
      (70016, 70017), (70070, 70078), (70089, 70092), (70095, 70095), (70191, 70193), (70196, 70196),
      (70198, 70199), (70206, 70206), (70367, 70367), (70371, 70378), (70400, 70401), (70459, 70460),
      (70464, 70464), (70502, 70508), (70512, 70516), (70712, 70719), (70722, 70724), (70726, 70726),
      (70750, 70750), (70835, 70840), (70842, 70842), (70847, 70848), (70850, 70851), (71090, 71093),
      (71100, 71101), (71103, 71104), (71132, 71133), (71219, 71226), (71229, 71229), (71231, 71232),
      (71339, 71339), (71341, 71341), (71344, 71349), (71351, 71351), (71453, 71455), (71458, 71461),
      (71463, 71467), (71727, 71735), (71737, 71738), (71995, 71996), (71998, 71998), (72003, 72003),
      (72148, 72151), (72154, 72155), (72160, 72160), (72193, 72202), (72243, 72248), (72251, 72254),
      (72263, 72263), (72273, 72278), (72281, 72283), (72330, 72342), (72344, 72345), (72752, 72758),
      (72760, 72765), (72767, 72767), (72850, 72871), (72874, 72880), (72882, 72883), (72885, 72886),
      (73009, 73014), (73018, 73018), (73020, 73021), (73023, 73029), (73031, 73031), (73104, 73105),
      (73109, 73109), (73111, 73111), (73459, 73460), (78896, 78904), (92912, 92916), (92976, 92982),
      (92992, 92995), (94031, 94031), (94095, 94111), (94176, 94177), (94179, 94180), (110576, 110579),
      (110581, 110587), (110589, 110590), (113821, 113822), (113824, 113827), (118528, 118573), (118576, 118598),
      (119143, 119145), (119155, 119170), (119173, 119179), (119210, 119213), (119362, 119364), (121344, 121398),
      (121403, 121452), (121461, 121461), (121476, 121476), (121499, 121503), (121505, 121519), (122880, 122886),
      (122888, 122904), (122907, 122913), (122915, 122916), (122918, 122922), (123184, 123197), (123566, 123566),
      (123628, 123631), (125136, 125142), (125252, 125259), (127995, 127999), (917505, 917505), (917536, 917631),
      (917760, 917999)]"

fun inRanges :: "(nat \<times> nat) list \<Rightarrow> nat \<Rightarrow> bool" where
  "inRanges [] c = False"
| "inRanges ((lo, hi) # ranges) c = ((lo \<le> c \<and> c \<le> hi) \<or> inRanges ranges c)"

definition caseIgnorable :: "nat \<Rightarrow> bool" where
  "caseIgnorable c = inRanges caseIgnorableRanges c"

definition casedLetter :: "nat \<Rightarrow> bool" where
  "casedLetter c = inRanges casedRanges c"

text \<open>
  Capital sigma, U+03A3, becomes final sigma U+03C2 when it ends a word and small sigma
  U+03C3 otherwise. It ends a word when the nearest code point before it that is not
  case-ignorable is a cased letter and the nearest such code point after it is not.
\<close>

fun nextCased :: "nat list \<Rightarrow> bool" where
  "nextCased [] = False"
| "nextCased (c # cs) = (if caseIgnorable c then nextCased cs else casedLetter c)"

definition finalSigma :: "nat list \<Rightarrow> nat list \<Rightarrow> bool" where
  "finalSigma passed rest = (nextCased passed \<and> \<not> nextCased rest)"

text \<open>The code points from left to right; \<open>passed\<close> holds those already passed, the
  nearest first.\<close>

fun lowerFrom :: "nat list \<Rightarrow> nat list \<Rightarrow> nat list" where
  "lowerFrom passed [] = []"
| "lowerFrom passed (c # rest) =
     (if c = 931 then [if finalSigma passed rest then 962 else 963] else lowerCodePoint c)
     @ lowerFrom (c # passed) rest"

definition toLowerCase :: "jsstring \<Rightarrow> jsstring" where
  "toLowerCase s = codeUnits (lowerFrom [] (codePoints s))"

section \<open>Products, arrays and the state of the screen\<close>

text \<open>The interface \<^verbatim>\<open>Product\<close>; \<^verbatim>\<open>rating\<close> is a nested object with the fields
  \<^verbatim>\<open>rate\<close> and \<^verbatim>\<open>count\<close>.\<close>

record product_rating =
  rate :: rat
  count_rating :: rat

record product =
  id_product :: rat
  title :: jsstring
  price :: rat
  description :: string
  category :: string
  image :: string
  rating :: product_rating

text \<open>
  Arrays of products are objects: two variables can hold the same array, and
  \<^verbatim>\<open>sort\<close> changes an array in place. The store is the list of all arrays created so
  far, and an array reference is an index into it. A reference held by the program
  always points to an array that exists.
\<close>

type_synonym addr = nat
type_synonym heap = "product list list"

definition alloc :: "product list \<Rightarrow> heap \<Rightarrow> addr \<times> heap" where
  "alloc xs h = (length h, h @ [xs])"

definition arrayAt :: "addr \<times> heap \<Rightarrow> product list" where
  "arrayAt rh = snd rh ! fst rh"

text \<open>\<^verbatim>\<open>[...xs]\<close> and \<^verbatim>\<open>xs.filter(P)\<close> create a new array.\<close>

definition copyArray :: "addr \<Rightarrow> heap \<Rightarrow> addr \<times> heap" where
  "copyArray r h = alloc (h ! r) h"

definition filterArray :: "(product \<Rightarrow> bool) \<Rightarrow> addr \<Rightarrow> heap \<Rightarrow> addr \<times> heap" where
  "filterArray P r h = alloc (filter P (h ! r)) h"

text \<open>
  \<^verbatim>\<open>xs.sort(cmp)\<close> reorders the array in place. For a consistent comparator the
  language fixes the result: ordered by the comparator, elements that compare equal in
  their former order. Inserting each element, last one first, in front of the first
  element it does not come after computes that order.
\<close>

fun insertSorted :: "('a \<Rightarrow> 'a \<Rightarrow> rat) \<Rightarrow> 'a \<Rightarrow> 'a list \<Rightarrow> 'a list" where
  "insertSorted cmp x [] = [x]"
| "insertSorted cmp x (y # ys) =
     (if cmp x y \<le> 0 then x # y # ys else y # insertSorted cmp x ys)"

definition arraySort :: "('a \<Rightarrow> 'a \<Rightarrow> rat) \<Rightarrow> 'a list \<Rightarrow> 'a list" where
  "arraySort cmp xs = foldr (insertSorted cmp) xs []"

definition sortArray :: "(product \<Rightarrow> product \<Rightarrow> rat) \<Rightarrow> addr \<Rightarrow> heap \<Rightarrow> addr \<times> heap" where
  "sortArray cmp r h = (r, h[r := arraySort cmp (h ! r)])"

text \<open>The state variables of the component \<^verbatim>\<open>Box\<close>.\<close>

record state =
  products :: addr
  filteredProducts :: addr
  loading :: bool
  searchTerm :: jsstring
  selectedCategories :: "string list"
  selectedPriceRanges :: "string list"
  selectedRatings :: "string list"
  sortOption :: string

section \<open>The filter and sort effect\<close>

subsection \<open>The predicates of the four filters\<close>

definition matchesSearch :: "jsstring \<Rightarrow> product \<Rightarrow> bool" where
  "matchesSearch query p = str_includes (toLowerCase (title p)) (toLowerCase query)"

definition matchesCategory :: "string list \<Rightarrow> product \<Rightarrow> bool" where
  "matchesCategory cats p = (category p \<in> set cats)"

text \<open>An element of an array by index: \<^verbatim>\<open>undefined\<close> beyond its end.\<close>

definition element :: "'a list \<Rightarrow> nat \<Rightarrow> 'a option" where
  "element xs i = (if i < length xs then Some (xs ! i) else None)"

text \<open>The test of one price range:
  \<^verbatim>\<open>const [min, max] = range.replace('$', '').split('-').map(Number)\<close>, then the
  comparison, with the lower bound alone when the range contains \<^verbatim>\<open>+\<close>.\<close>

definition priceBounds :: "string \<Rightarrow> jsnum list" where
  "priceBounds range' = map Number (str_split (CHR ''-'') (replaceFirst (CHR ''$'') range'))"

definition inPriceRange :: "product \<Rightarrow> string \<Rightarrow> bool" where
  "inPriceRange p range' =
     (let bounds = priceBounds range';
          min' = toNumber (element bounds 0);
          max' = toNumber (element bounds 1)
      in if CHR ''+'' \<in> set range' then js_ge (Fin (price p)) min'
         else js_ge (Fin (price p)) min' \<and> js_le (Fin (price p)) max')"

definition matchesPrice :: "string list \<Rightarrow> product \<Rightarrow> bool" where
  "matchesPrice ranges p = list_ex (inPriceRange p) ranges"

text \<open>The test of one rating band: \<^verbatim>\<open>parseInt(rating.split('+')[0])\<close> is the
  minimum. (\<^verbatim>\<open>split\<close> returns at least one piece; \<^verbatim>\<open>parseInt(undefined)\<close> would
  be NaN.)\<close>

definition minRating :: "string \<Rightarrow> jsnum" where
  "minRating band =
     (case str_split (CHR ''+'') band of [] \<Rightarrow> NaN | piece # _ \<Rightarrow> parseInt piece)"

definition matchesRating :: "string list \<Rightarrow> product \<Rightarrow> bool" where
  "matchesRating bands p = list_ex (\<lambda>band. js_ge (Fin (rate (rating p))) (minRating band)) bands"

subsection \<open>The stages\<close>

text \<open>A filter stage runs only when its selection is not empty; the variable
  \<^verbatim>\<open>result\<close> then holds the new array.\<close>

definition stage :: "bool \<Rightarrow> (product \<Rightarrow> bool) \<Rightarrow> addr \<times> heap \<Rightarrow> addr \<times> heap" where
  "stage active P rh = (if active then filterArray P (fst rh) (snd rh) else rh)"

definition searchStage :: "jsstring \<Rightarrow> addr \<times> heap \<Rightarrow> addr \<times> heap" where
  "searchStage query = stage (query \<noteq> []) (matchesSearch query)"

definition categoryStage :: "string list \<Rightarrow> addr \<times> heap \<Rightarrow> addr \<times> heap" where
  "categoryStage cats = stage (cats \<noteq> []) (matchesCategory cats)"

definition priceStage :: "string list \<Rightarrow> addr \<times> heap \<Rightarrow> addr \<times> heap" where
  "priceStage ranges = stage (ranges \<noteq> []) (matchesPrice ranges)"

definition ratingStage :: "string list \<Rightarrow> addr \<times> heap \<Rightarrow> addr \<times> heap" where
  "ratingStage bands = stage (bands \<noteq> []) (matchesRating bands)"

text \<open>The comparator of each sort option, as the \<^verbatim>\<open>switch\<close> selects it.\<close>

definition sortComparator :: "string \<Rightarrow> product \<Rightarrow> product \<Rightarrow> rat" where
  "sortComparator opt =
     (if opt = ''price-low-high'' then (\<lambda>a b. price a - price b)
      else if opt = ''price-high-low'' then (\<lambda>a b. price b - price a)
      else if opt = ''rating'' then (\<lambda>a b. rate (rating b) - rate (rating a))
      else (\<lambda>a b. count_rating (rating b) - count_rating (rating a)))"

definition sortStage :: "string \<Rightarrow> addr \<times> heap \<Rightarrow> addr \<times> heap" where
  "sortStage opt rh = sortArray (sortComparator opt) (fst rh) (snd rh)"

text \<open>The effect: copy the catalog, run the stages, store the result as the displayed
  list.\<close>

definition filterSortEffect :: "state \<Rightarrow> heap \<Rightarrow> state \<times> heap" where
  "filterSortEffect s h =
     (let result =
            sortStage (sortOption s)
              (ratingStage (selectedRatings s)
                (priceStage (selectedPriceRanges s)
                  (categoryStage (selectedCategories s)
                    (searchStage (searchTerm s)
                      (copyArray (products s) h)))))
      in (s\<lparr>filteredProducts := fst result\<rparr>, snd result))"

section \<open>The handlers\<close>

text \<open>The updater passed to each setter of \<^verbatim>\<open>handleFilterChange\<close>.\<close>

definition toggle :: "string \<Rightarrow> string list \<Rightarrow> string list" where
  "toggle opt prev =
     (if opt \<in> set prev then filter (\<lambda>item. item \<noteq> opt) prev else prev @ [opt])"

definition handleFilterChange :: "string \<Rightarrow> string \<Rightarrow> state \<Rightarrow> state" where
  "handleFilterChange cat opt s =
     (if cat = ''Category'' then s\<lparr>selectedCategories := toggle opt (selectedCategories s)\<rparr>
      else if cat = ''Price Range'' then s\<lparr>selectedPriceRanges := toggle opt (selectedPriceRanges s)\<rparr>
      else if cat = ''Rating'' then s\<lparr>selectedRatings := toggle opt (selectedRatings s)\<rparr>
      else s)"

definition handleReset :: "state \<Rightarrow> state" where
  "handleReset s =
     s\<lparr>searchTerm := [], selectedCategories := [], selectedPriceRanges := [],
       selectedRatings := [], sortOption := ''popularity''\<rparr>"

text \<open>The options the sidebar offers.\<close>

definition priceRangeOptions :: "string list" where
  "priceRangeOptions = [''$0-$50'', ''$50-$100'', ''$100-$200'', ''$200+'']"

definition ratingOptions :: "string list" where
  "ratingOptions = [''5'', ''4+'', ''3+'']"

section \<open>Loading the catalog\<close>

text \<open>
  A settled promise is fulfilled with a value or rejected with an error. The request is
  rejected (a network error) or yields a response, which has a status code; its
  \<^verbatim>\<open>json()\<close> is rejected in turn (the body is not JSON) or yields the parsed body,
  which the handler takes as an array of products. The code reads neither the status nor
  \<^verbatim>\<open>ok\<close>. The world of the component is its state, the store, the console and the
  number of requests sent.
\<close>

datatype 'a promise = Fulfilled 'a | Rejected string

datatype response = Response (status: nat) (json: "product list promise")

definition ok :: "response \<Rightarrow> bool" where
  "ok res = (200 \<le> status res \<and> status res \<le> 299)"

record world =
  st :: state
  store :: heap
  console :: "(string \<times> string) list"
  requests :: nat

fun then_p :: "('a \<Rightarrow> world \<Rightarrow> 'b promise \<times> world) \<Rightarrow> 'a promise \<times> world \<Rightarrow> 'b promise \<times> world" where
  "then_p f (Fulfilled a, w) = f a w"
| "then_p f (Rejected e, w) = (Rejected e, w)"

fun catch_p :: "(string \<Rightarrow> world \<Rightarrow> 'a promise \<times> world) \<Rightarrow> 'a promise \<times> world \<Rightarrow> 'a promise \<times> world" where
  "catch_p g (Fulfilled a, w) = (Fulfilled a, w)"
| "catch_p g (Rejected e, w) = g e w"

definition fetch :: "response promise \<Rightarrow> world \<Rightarrow> response promise \<times> world" where
  "fetch answer w = (answer, w\<lparr>requests := requests w + 1\<rparr>)"

definition onData :: "product list \<Rightarrow> world \<Rightarrow> unit promise \<times> world" where
  "onData data w =
     (let (a, h) = alloc data (store w)
      in (Fulfilled (),
          w\<lparr>st := (st w)\<lparr>products := a, filteredProducts := a, loading := False\<rparr>,
            store := h\<rparr>))"

definition onError :: "string \<Rightarrow> world \<Rightarrow> unit promise \<times> world" where
  "onError error w =
     (Fulfilled (),
      w\<lparr>console := console w @ [(''Error fetching products:'', error)],
        st := (st w)\<lparr>loading := False\<rparr>\<rparr>)"

definition loadEffect :: "response promise \<Rightarrow> world \<Rightarrow> unit promise \<times> world" where
  "loadEffect answer w =
     catch_p onError
       (then_p onData
         (then_p (\<lambda>res w'. (json res, w'))
           (fetch answer w)))"

text \<open>The first render: every state variable has its initial value, the two product
  lists are two empty arrays.\<close>

definition initialState :: state where
  "initialState =
     \<lparr>products = 0, filteredProducts = 1, loading = True, searchTerm = [],
      selectedCategories = [], selectedPriceRanges = [], selectedRatings = [],
      sortOption = ''popularity''\<rparr>"

definition initialWorld :: world where
  "initialWorld = \<lparr>st = initialState, store = [[], []], console = [], requests = 0\<rparr>"

definition runFilterSort :: "world \<Rightarrow> world" where
  "runFilterSort w =
     (let (s, h) = filterSortEffect (st w) (store w) in w\<lparr>st := s, store := h\<rparr>)"

text \<open>
  The life of the component up to the settling of the request: both effects run after the
  first render, the request settles, and the filter and sort effect runs again when one of
  its dependencies changed (of these only \<^verbatim>\<open>products\<close> can have).
\<close>

definition mount :: "response promise \<Rightarrow> unit promise \<times> world" where
  "mount answer =
     (let w1 = runFilterSort initialWorld;
          (outcome, w2) = loadEffect answer w1;
          w3 = (if products (st w2) \<noteq> products (st w1) then runFilterSort w2 else w2)
      in (outcome, w3))"

section \<open>What the screen shows\<close>

text \<open>The catalog and the displayed list of a state, read from the store.\<close>

definition catalog :: "state \<times> heap \<Rightarrow> product list" where
  "catalog sh = snd sh ! products (fst sh)"

definition displayed :: "state \<times> heap \<Rightarrow> product list" where
  "displayed sh = snd sh ! filteredProducts (fst sh)"

text \<open>A filter that may be switched off, and the list the four filters of a state select
  from a list of products.\<close>

definition keepWhen :: "bool \<Rightarrow> (product \<Rightarrow> bool) \<Rightarrow> product list \<Rightarrow> product list" where
  "keepWhen active P xs = (if active then filter P xs else xs)"

definition selected :: "state \<Rightarrow> product list \<Rightarrow> product list" where
  "selected s xs =
     keepWhen (selectedRatings s \<noteq> []) (matchesRating (selectedRatings s))
       (keepWhen (selectedPriceRanges s \<noteq> []) (matchesPrice (selectedPriceRanges s))
         (keepWhen (selectedCategories s \<noteq> []) (matchesCategory (selectedCategories s))
           (keepWhen (searchTerm s \<noteq> []) (matchesSearch (searchTerm s)) xs)))"

text \<open>The lower-case form of a character below 128: the letters A to Z move up by 32.\<close>

definition asciiLower :: "nat \<Rightarrow> nat" where
  "asciiLower c = (if 65 \<le> c \<and> c \<le> 90 then c + 32 else c)"

text \<open>An array reference that was created after the store \<open>h0\<close>, in a store that
  still begins with \<open>h0\<close>.\<close>

definition freshOver :: "heap \<Rightarrow> addr \<times> heap \<Rightarrow> bool" where
  "freshOver h0 rh =
     (length h0 \<le> fst rh \<and> fst rh < length (snd rh) \<and> take (length h0) (snd rh) = h0)"

text \<open>The error of a rejection: the request itself is rejected, or reading the body of
  the response is.\<close>

definition rejectionOf :: "response promise \<Rightarrow> string option" where
  "rejectionOf answer =
     (case answer of
        Rejected e \<Rightarrow> Some e
      | Fulfilled res \<Rightarrow> (case json res of Rejected e \<Rightarrow> Some e | Fulfilled _ \<Rightarrow> None))"

text \<open>A product for the scenarios: title, price, rating value, number of reviews.\<close>

definition item :: "string \<Rightarrow> rat \<Rightarrow> rat \<Rightarrow> rat \<Rightarrow> product" where
  "item t p r c =
     \<lparr>id_product = 1, title = utf16 t, price = p, description = [], category = ''electronics'',
      image = [], rating = \<lparr>rate = r, count_rating = c\<rparr>\<rparr>"

definition itemTitled :: "jsstring \<Rightarrow> product" where
  "itemTitled t = (item [] 10 4 120)\<lparr>title := t\<rparr>"

section \<open>The properties the specification asks for\<close>

text \<open>
  A list \<open>ys\<close> is the list \<open>xs\<close> sorted by a key, ties left in encounter order: the
  same products as often, in ascending (or descending) order of the key, and the products
  of one key in the order they have in \<open>xs\<close>.
\<close>

definition sortedAscendingBy :: "(product \<Rightarrow> rat) \<Rightarrow> product list \<Rightarrow> bool" where
  "sortedAscendingBy key ys = sorted_wrt (\<lambda>a b. key a \<le> key b) ys"

definition sortedDescendingBy :: "(product \<Rightarrow> rat) \<Rightarrow> product list \<Rightarrow> bool" where
  "sortedDescendingBy key ys = sorted_wrt (\<lambda>a b. key b \<le> key a) ys"

definition keepsEncounterOrder :: "(product \<Rightarrow> rat) \<Rightarrow> product list \<Rightarrow> product list \<Rightarrow> bool" where
  "keepsEncounterOrder key xs ys =
     list_all (\<lambda>x. filter (\<lambda>p. key p = key x) ys = filter (\<lambda>p. key p = key x) xs) xs"

definition stableAscending :: "(product \<Rightarrow> rat) \<Rightarrow> product list \<Rightarrow> product list \<Rightarrow> bool" where
  "stableAscending key xs ys =
     (mset ys = mset xs \<and> sortedAscendingBy key ys \<and> keepsEncounterOrder key xs ys)"

definition stableDescending :: "(product \<Rightarrow> rat) \<Rightarrow> product list \<Rightarrow> product list \<Rightarrow> bool" where
  "stableDescending key xs ys =
     (mset ys = mset xs \<and> sortedDescendingBy key ys \<and> keepsEncounterOrder key xs ys)"

text \<open>
  The search string is a case-insensitive substring of a title: at some position of the
  title stands a string of the same length whose characters are those of the search
  string up to case. Two characters are the same up to case when they are equal or are
  the capital and the small form of one of the letters A to Z (code units 65 to 90 and
  97 to 122); this is the least such relation, the one that holds whatever further
  letters are counted as having two cases.
\<close>

definition sameLetter :: "nat \<Rightarrow> nat \<Rightarrow> bool" where
  "sameLetter c d =
     (c = d \<or> (65 \<le> c \<and> c \<le> 90 \<and> d = c + 32) \<or> (65 \<le> d \<and> d \<le> 90 \<and> c = d + 32))"

definition equalIgnoringCase :: "jsstring \<Rightarrow> jsstring \<Rightarrow> bool" where
  "equalIgnoringCase a b = list_all2 sameLetter a b"

definition caseInsensitiveSubstring :: "jsstring \<Rightarrow> jsstring \<Rightarrow> bool" where
  "caseInsensitiveSubstring q t =
     list_ex (\<lambda>i. equalIgnoringCase (take (length q) (drop i t)) q) [0..<Suc (length t)]"

text \<open>
  A string in which lower-casing can change the letters A to Z only: each of its code
  units is below 128, or is a character of the basic plane (no surrogate) that
  \<^verbatim>\<open>toLowerCase\<close> leaves as it is, such as a dash, a digit or a small letter.
\<close>

definition plainUnit :: "nat \<Rightarrow> bool" where
  "plainUnit c =
     (c < 128 \<or>
      (c < 65536 \<and> \<not> isHighSurrogate c \<and> \<not> isLowSurrogate c \<and> lowerCodePoint c = [c]))"

definition isPlain :: "jsstring \<Rightarrow> bool" where
  "isPlain s = list_all plainUnit s"

text \<open>
  The request for the catalog fails: a network error, a response whose status is not a
  success, or a body that cannot be read. What the specification asks for then: the
  promise chain ends without an error, the loading flag is false, the catalog and the
  displayed list are empty, one diagnostic is on the console and one request was sent.
\<close>

definition fetchFails :: "response promise \<Rightarrow> bool" where
  "fetchFails answer =
     (case answer of
        Rejected e \<Rightarrow> True
      | Fulfilled res \<Rightarrow>
          if ok res then (case json res of Rejected e \<Rightarrow> True | Fulfilled _ \<Rightarrow> False)
          else True)"

definition failureHandled :: "unit promise \<times> world \<Rightarrow> bool" where
  "failureHandled ow =
     (fst ow = Fulfilled () \<and> \<not> loading (st (snd ow)) \<and>
      catalog (st (snd ow), store (snd ow)) = [] \<and>
      displayed (st (snd ow), store (snd ow)) = [] \<and>
      length (console (snd ow)) = 1 \<and> requests (snd ow) = 1)"

text \<open>The minimum of a rating band: \<^verbatim>\<open>5\<close> means 5, \<^verbatim>\<open>4+\<close> means 4,
  \<^verbatim>\<open>3+\<close> means 3. A product meets a band when its rating value is at least the
  minimum.\<close>

definition bandMinimum :: "string \<Rightarrow> rat option" where
  "bandMinimum band =
     (if band = ''5'' then Some 5 else if band = ''4+'' then Some 4
      else if band = ''3+'' then Some 3 else None)"

definition meetsBand :: "product \<Rightarrow> string \<Rightarrow> bool" where
  "meetsBand p band = (case bandMinimum band of None \<Rightarrow> False | Some m \<Rightarrow> m \<le> rate (rating p))"

text \<open>Toggling a token in a set: removed if present, added if absent.\<close>

definition toggleSet :: "string \<Rightarrow> string set \<Rightarrow> string set" where
  "toggleSet t S = (if t \<in> S then S - {t} else insert t S)"

section \<open>Auxiliary facts\<close>

subsection \<open>Arrays in the store\<close>

lemma arrayAt_pair: "arrayAt (r, h) = h ! r"
  by (simp add: arrayAt_def)

lemma arrayAt_alloc: "arrayAt (alloc xs h) = xs"
  by (simp add: arrayAt_def alloc_def)

lemma arrayAt_stage: "arrayAt (stage active P rh) = keepWhen active P (arrayAt rh)"
  by (simp add: stage_def keepWhen_def filterArray_def arrayAt_alloc) (simp add: arrayAt_def)

lemma arrayAt_copyArray: "arrayAt (copyArray r h) = h ! r"
  by (simp add: copyArray_def arrayAt_alloc)

lemma arrayAt_sortStage:
  "fst rh < length (snd rh) \<Longrightarrow>
   arrayAt (sortStage opt rh) = arraySort (sortComparator opt) (arrayAt rh)"
  by (simp add: sortStage_def sortArray_def arrayAt_def)

lemma freshOver_copyArray: "freshOver h (copyArray r h)"
  by (simp add: freshOver_def copyArray_def alloc_def)

lemma freshOver_stage: "freshOver h0 rh \<Longrightarrow> freshOver h0 (stage active P rh)"
  by (auto simp add: freshOver_def stage_def filterArray_def alloc_def)

lemma freshOver_sortStage: "freshOver h0 rh \<Longrightarrow> freshOver h0 (sortStage opt rh)"
  by (simp add: freshOver_def sortStage_def sortArray_def take_update_cancel)

lemma freshOver_valid: "freshOver h0 rh \<Longrightarrow> fst rh < length (snd rh)"
  by (simp add: freshOver_def)

text \<open>The array the four filter stages leave in \<^verbatim>\<open>result\<close> is fresh and holds
  the selected products.\<close>

lemma filter_stages:
  "freshOver h
     (ratingStage (selectedRatings s)
       (priceStage (selectedPriceRanges s)
         (categoryStage (selectedCategories s)
           (searchStage (searchTerm s) (copyArray (products s) h))))) \<and>
   arrayAt
     (ratingStage (selectedRatings s)
       (priceStage (selectedPriceRanges s)
         (categoryStage (selectedCategories s)
           (searchStage (searchTerm s) (copyArray (products s) h))))) =
   selected s (h ! products s)"
proof -
  let ?c = "copyArray (products s) h"
  let ?s1 = "searchStage (searchTerm s) ?c"
  let ?s2 = "categoryStage (selectedCategories s) ?s1"
  let ?s3 = "priceStage (selectedPriceRanges s) ?s2"
  let ?s4 = "ratingStage (selectedRatings s) ?s3"
  have f0: "freshOver h ?c" by (rule freshOver_copyArray)
  have f1: "freshOver h ?s1" unfolding searchStage_def by (rule freshOver_stage [OF f0])
  have f2: "freshOver h ?s2" unfolding categoryStage_def by (rule freshOver_stage [OF f1])
  have f3: "freshOver h ?s3" unfolding priceStage_def by (rule freshOver_stage [OF f2])
  have f4: "freshOver h ?s4" unfolding ratingStage_def by (rule freshOver_stage [OF f3])
  have "arrayAt ?s4 = selected s (h ! products s)"
    unfolding ratingStage_def priceStage_def categoryStage_def searchStage_def
    by (simp only: arrayAt_stage arrayAt_copyArray selected_def)
  with f4 show ?thesis by simp
qed

lemma filterSortEffect_displayed:
  "displayed (filterSortEffect s h) =
     arraySort (sortComparator (sortOption s)) (selected s (h ! products s))"
proof -
  let ?rh = "ratingStage (selectedRatings s)
               (priceStage (selectedPriceRanges s)
                 (categoryStage (selectedCategories s)
                   (searchStage (searchTerm s) (copyArray (products s) h))))"
  have fs: "freshOver h ?rh" "arrayAt ?rh = selected s (h ! products s)"
    using filter_stages [of h s] by simp_all
  have "displayed (filterSortEffect s h) = arrayAt (sortStage (sortOption s) ?rh)"
    by (simp add: displayed_def filterSortEffect_def Let_def arrayAt_def)
  also have "\<dots> = arraySort (sortComparator (sortOption s)) (arrayAt ?rh)"
    by (rule arrayAt_sortStage [OF freshOver_valid [OF fs(1)]])
  finally show ?thesis by (simp only: fs(2))
qed

lemma filterSortEffect_frame: "take (length h) (snd (filterSortEffect s h)) = h"
proof -
  let ?rh = "ratingStage (selectedRatings s)
               (priceStage (selectedPriceRanges s)
                 (categoryStage (selectedCategories s)
                   (searchStage (searchTerm s) (copyArray (products s) h))))"
  have "freshOver h ?rh" using filter_stages [of h s] by simp
  then have "freshOver h (sortStage (sortOption s) ?rh)" by (rule freshOver_sortStage)
  then show ?thesis by (simp add: freshOver_def filterSortEffect_def Let_def)
qed

lemma filterSortEffect_products: "products (fst (filterSortEffect s h)) = products s"
  by (simp add: filterSortEffect_def Let_def)

subsection \<open>Sorting\<close>

lemma insertSorted_insort_key:
  assumes "\<And>a b. (cmp a b \<le> 0) = (f a \<le> (f b :: rat))"
  shows "insertSorted cmp x ys = insort_key f x ys"
  by (induction ys) (simp_all add: assms)

lemma arraySort_sort_key:
  assumes "\<And>a b. (cmp a b \<le> 0) = (f a \<le> (f b :: rat))"
  shows "arraySort cmp xs = sort_key f xs"
proof -
  have "insertSorted cmp = insort_key f"
    by (intro ext) (rule insertSorted_insort_key [OF assms])
  then show ?thesis by (simp add: arraySort_def sort_key_def)
qed

lemma mset_insertSorted: "mset (insertSorted cmp x ys) = add_mset x (mset ys)"
  by (induction ys) simp_all

lemma mset_arraySort: "mset (arraySort cmp xs) = mset xs"
  by (induction xs) (simp_all add: arraySort_def mset_insertSorted)

lemma stableAscending_iff: "stableAscending key xs ys \<longleftrightarrow> ys = sort_key key xs"
proof
  assume a: "stableAscending key xs ys"
  have "sort_key key xs = ys"
  proof (rule properties_for_sort_key)
    show "mset ys = mset xs" using a by (simp add: stableAscending_def)
    show "sorted (map key ys)"
      using a by (simp add: stableAscending_def sortedAscendingBy_def sorted_map)
    fix k assume "k \<in> set ys"
    then have "k \<in> set xs" using a by (metis stableAscending_def set_mset_mset)
    then have "filter (\<lambda>p. key p = key k) ys = filter (\<lambda>p. key p = key k) xs"
      using a by (simp add: stableAscending_def keepsEncounterOrder_def list_all_iff)
    moreover have "(\<lambda>p. key k = key p) = (\<lambda>p. key p = key k)" by auto
    ultimately show "filter (\<lambda>p. key k = key p) ys = filter (\<lambda>p. key k = key p) xs" by simp
  qed
  then show "ys = sort_key key xs" by simp
next
  assume ys: "ys = sort_key key xs"
  have "sorted (map key ys)" by (simp add: ys)
  then have "sortedAscendingBy key ys"
    by (simp only: sortedAscendingBy_def sorted_map)
  moreover have "keepsEncounterOrder key xs ys"
    by (simp add: keepsEncounterOrder_def list_all_iff ys sort_key_stable)
  moreover have "mset ys = mset xs" by (simp add: ys)
  ultimately show "stableAscending key xs ys"
    by (simp only: stableAscending_def simp_thms)
qed

lemma stableDescending_iff: "stableDescending key xs ys \<longleftrightarrow> ys = sort_key (\<lambda>p. - key p) xs"
proof -
  have "stableDescending key xs ys = stableAscending (\<lambda>p. - key p) xs ys"
    by (simp add: stableDescending_def stableAscending_def sortedDescendingBy_def
        sortedAscendingBy_def keepsEncounterOrder_def)
  then show ?thesis by (simp add: stableAscending_iff)
qed

lemma arraySort_ascending: "stableAscending key xs ys \<longleftrightarrow> ys = arraySort (\<lambda>a b. key a - key b) xs"
proof -
  have "arraySort (\<lambda>a b. key a - key b) xs = sort_key key xs"
    by (rule arraySort_sort_key) simp
  then show ?thesis by (simp add: stableAscending_iff)
qed

lemma arraySort_descending: "stableDescending key xs ys \<longleftrightarrow> ys = arraySort (\<lambda>a b. key b - key a) xs"
proof -
  have "arraySort (\<lambda>a b. key b - key a) xs = sort_key (\<lambda>p. - key p) xs"
    by (rule arraySort_sort_key) simp
  then show ?thesis by (simp add: stableDescending_iff)
qed

subsection \<open>Strings\<close>

lemma startsWith_iff: "startsWith s t \<longleftrightarrow> take (length t) s = t"
  by (induction s t rule: startsWith.induct) auto

lemma str_includes_iff: "str_includes s t \<longleftrightarrow> (\<exists>i\<le>length s. take (length t) (drop i s) = t)"
proof (induction s)
  case Nil
  then show ?case by auto
next
  case (Cons c s)
  have "(\<exists>i\<le>length (c # s). take (length t) (drop i (c # s)) = t) \<longleftrightarrow>
        take (length t) (c # s) = t \<or> (\<exists>i\<le>length s. take (length t) (drop i s) = t)"
    (is "?L \<longleftrightarrow> ?A \<or> ?B")
  proof
    assume ?L
    then obtain i where i: "i \<le> length (c # s)" "take (length t) (drop i (c # s)) = t" by auto
    show "?A \<or> ?B"
    proof (cases i)
      case 0
      then show ?thesis using i by simp
    next
      case (Suc j)
      then have "j \<le> length s" "take (length t) (drop j s) = t" using i by auto
      then show ?thesis by blast
    qed
  next
    assume "?A \<or> ?B"
    then show ?L
    proof
      assume ?A
      then have "0 \<le> length (c # s) \<and> take (length t) (drop 0 (c # s)) = t" by simp
      then show ?L by blast
    next
      assume ?B
      then obtain j where "j \<le> length s" "take (length t) (drop j s) = t" by auto
      then have "Suc j \<le> length (c # s) \<and> take (length t) (drop (Suc j) (c # s)) = t" by auto
      then show ?L by blast
    qed
  qed
  then show ?case using Cons.IH by (simp only: str_includes.simps startsWith_iff)
qed

text \<open>Lower-casing a plain string lower-cases the letters A to Z and keeps every other
  character: no surrogate pair, no special mapping and no capital sigma occur.\<close>

lemma lowerIn_below:
  "list_all (\<lambda>(lo, hi, step, target). c < lo) runs \<Longrightarrow> lowerIn runs c = c"
  by (induction runs) auto

lemma lowerRunsBeyondAscii_above:
  "list_all (\<lambda>(lo, hi, step, target). 128 \<le> lo) lowerRunsBeyondAscii"
  by (simp add: lowerRunsBeyondAscii_def)

lemma lowerCodePoint_ascii:
  assumes "c < 128"
  shows "lowerCodePoint c = [asciiLower c]"
proof -
  have "list_all (\<lambda>(lo, hi, step, target). c < lo) lowerRunsBeyondAscii"
    using lowerRunsBeyondAscii_above assms
    by (auto simp add: list_all_iff)
  then have "lowerIn lowerRunsBeyondAscii c = c"
    by (rule lowerIn_below)
  then have "lowerIn lowerRuns c = asciiLower c"
    by (simp add: lowerRuns_def asciiLower_def)
  then show ?thesis
    using assms by (simp add: lowerCodePoint_def)
qed

lemma lowerIn_sigma: "lowerIn lowerRuns 931 = 963"
  by (simp add: lowerRuns_def lowerRunsBeyondAscii_def)

lemma plainUnit_lower:
  assumes "plainUnit c"
  shows "lowerCodePoint c = [asciiLower c]" and "c \<noteq> 931" and "\<not> isHighSurrogate c"
    and "\<not> 65536 \<le> asciiLower c"
proof -
  show "lowerCodePoint c = [asciiLower c]"
  proof (cases "c < 128")
    case True
    then show ?thesis by (rule lowerCodePoint_ascii)
  next
    case False
    then show ?thesis using assms by (simp add: plainUnit_def asciiLower_def)
  qed
  show "c \<noteq> 931"
    using assms by (auto simp add: plainUnit_def lowerCodePoint_def lowerIn_sigma)
  show "\<not> isHighSurrogate c"
    using assms by (auto simp add: plainUnit_def isHighSurrogate_def)
  show "\<not> 65536 \<le> asciiLower c"
    using assms by (auto simp add: plainUnit_def asciiLower_def)
qed

lemma codePoints_plain: "isPlain s \<Longrightarrow> codePoints s = s"
  by (induction s rule: codePoints.induct) (simp_all add: isPlain_def plainUnit_lower(3))

lemma lowerFrom_plain: "isPlain s \<Longrightarrow> lowerFrom passed s = map asciiLower s"
  by (induction s arbitrary: passed) (simp_all add: isPlain_def plainUnit_lower(1,2))

lemma codeUnits_plain: "isPlain s \<Longrightarrow> codeUnits (map asciiLower s) = map asciiLower s"
  by (induction s) (simp_all add: isPlain_def codeUnits_def unitsOf_def plainUnit_lower(4))

lemma toLowerCase_plain: "isPlain s \<Longrightarrow> toLowerCase s = map asciiLower s"
  by (simp add: toLowerCase_def codePoints_plain lowerFrom_plain codeUnits_plain)

lemma sameLetter_iff: "sameLetter c d \<longleftrightarrow> asciiLower c = asciiLower d"
  by (auto simp add: sameLetter_def asciiLower_def)

lemma equalIgnoringCase_iff: "equalIgnoringCase a b \<longleftrightarrow> map asciiLower a = map asciiLower b"
  by (auto simp add: equalIgnoringCase_def sameLetter_iff list_all2_conv_all_nth
      list_eq_iff_nth_eq)

lemma matchesSearch_plain:
  assumes "isPlain q" and "isPlain (title p)"
  shows "matchesSearch q p \<longleftrightarrow> caseInsensitiveSubstring q (title p)"
proof -
  have "caseInsensitiveSubstring q (title p) \<longleftrightarrow>
        (\<exists>i\<le>length (title p).
           map asciiLower (take (length q) (drop i (title p))) = map asciiLower q)"
    by (auto simp add: caseInsensitiveSubstring_def list_ex_iff equalIgnoringCase_iff
        less_Suc_eq_le simp del: upt_Suc)
  also have "\<dots> \<longleftrightarrow>
        (\<exists>i\<le>length (map asciiLower (title p)).
           take (length (map asciiLower q)) (drop i (map asciiLower (title p)))
             = map asciiLower q)"
    by (simp add: take_map drop_map)
  also have "\<dots> \<longleftrightarrow> str_includes (map asciiLower (title p)) (map asciiLower q)"
    by (simp only: str_includes_iff)
  finally show ?thesis
    by (simp add: matchesSearch_def toLowerCase_plain assms)
qed

text \<open>The two strings of the final sigma scenario: a capital alpha and a capital sigma,
  and a capital sigma alone.\<close>

lemma lowerIn_alpha: "lowerIn lowerRuns 913 = 945"
  by (simp add: lowerRuns_def lowerRunsBeyondAscii_def)

lemma caseIgnorable_alpha: "caseIgnorable 913 = False"
  by (simp add: caseIgnorable_def caseIgnorableRanges_def)

lemma casedLetter_alpha: "casedLetter 913 = True"
  by (simp add: casedLetter_def casedRanges_def)

lemma toLowerCase_alpha_sigma: "toLowerCase [913, 931] = [945, 962]"
  by (simp add: toLowerCase_def isHighSurrogate_def lowerCodePoint_def lowerIn_alpha
      finalSigma_def caseIgnorable_alpha casedLetter_alpha codeUnits_def unitsOf_def)

lemma toLowerCase_sigma: "toLowerCase [931] = [963]"
  by (simp add: toLowerCase_def finalSigma_def codeUnits_def unitsOf_def)

subsection \<open>The bands of the sidebar\<close>

lemma js_le_NaN_right: "js_le x NaN = False"
  by (cases x) simp_all

lemma js_ge_NaN_right: "js_ge x NaN = False"
  by (simp add: js_ge_def)

lemma priceBounds_0_50: "priceBounds ''$0-$50'' = [Fin 0, NaN]"
  by code_simp

lemma priceBounds_50_100: "priceBounds ''$50-$100'' = [Fin 50, NaN]"
  by code_simp

lemma priceBounds_100_200: "priceBounds ''$100-$200'' = [Fin 100, NaN]"
  by code_simp

lemma priceBounds_200: "priceBounds ''$200+'' = [NaN]"
  by code_simp

lemma inPriceRange_0_50: "inPriceRange p ''$0-$50'' = False"
  unfolding inPriceRange_def priceBounds_0_50
  by (simp add: element_def toNumber_def js_le_NaN_right)

lemma inPriceRange_50_100: "inPriceRange p ''$50-$100'' = False"
  unfolding inPriceRange_def priceBounds_50_100
  by (simp add: element_def toNumber_def js_le_NaN_right)

lemma inPriceRange_100_200: "inPriceRange p ''$100-$200'' = False"
  unfolding inPriceRange_def priceBounds_100_200
  by (simp add: element_def toNumber_def js_le_NaN_right)

lemma inPriceRange_200: "inPriceRange p ''$200+'' = False"
  unfolding inPriceRange_def priceBounds_200
  by (simp add: element_def toNumber_def js_ge_NaN_right)

lemma matchesPrice_options:
  "set ranges \<subseteq> set priceRangeOptions \<Longrightarrow> matchesPrice ranges p = False"
  by (induction ranges)
     (auto simp add: matchesPrice_def priceRangeOptions_def inPriceRange_0_50
        inPriceRange_50_100 inPriceRange_100_200 inPriceRange_200)

lemma minRating_5: "minRating ''5'' = Fin 5"
  by code_simp

lemma minRating_4: "minRating ''4+'' = Fin 4"
  by code_simp

lemma minRating_3: "minRating ''3+'' = Fin 3"
  by code_simp

lemma meetsBand_options:
  "band \<in> set ratingOptions \<Longrightarrow>
   js_ge (Fin (rate (rating p))) (minRating band) = meetsBand p band"
  by (auto simp add: ratingOptions_def minRating_5 minRating_4 minRating_3 meetsBand_def
      bandMinimum_def js_ge_def)

lemma matchesRating_options:
  "set bands \<subseteq> set ratingOptions \<Longrightarrow> matchesRating bands p = list_ex (meetsBand p) bands"
  by (induction bands) (simp_all add: matchesRating_def meetsBand_options)

subsection \<open>Toggling\<close>

lemma set_toggle: "set (toggle opt prev) = toggleSet opt (set prev)"
  by (auto simp add: toggle_def toggleSet_def)

lemma toggleSet_twice: "toggleSet t (toggleSet t S) = S"
  by (auto simp add: toggleSet_def)

subsection \<open>A rejected request\<close>

text \<open>When the request or the reading of the body is rejected, the handler of
  \<^verbatim>\<open>catch\<close> runs: the chain ends fulfilled, the loading flag is cleared, the store
  is untouched, the console has one more entry and one request was sent. After a first
  render that ends this way the failure is handled as the specification asks.\<close>

lemma rejected_request_only_clears_loading:
  assumes "rejectionOf answer = Some e"
  shows "fst (loadEffect answer w) = Fulfilled () \<and>
         st (snd (loadEffect answer w)) = (st w)\<lparr>loading := False\<rparr> \<and>
         store (snd (loadEffect answer w)) = store w \<and>
         console (snd (loadEffect answer w)) = console w @ [(''Error fetching products:'', e)] \<and>
         requests (snd (loadEffect answer w)) = requests w + 1 \<and>
         failureHandled (mount answer) \<and>
         console (snd (mount answer)) = [(''Error fetching products:'', e)]"
proof -
  have l: "loadEffect answer w =
      (Fulfilled (),
       w\<lparr>requests := requests w + 1,
         console := console w @ [(''Error fetching products:'', e)],
         st := (st w)\<lparr>loading := False\<rparr>\<rparr>)" for w
    using assms
    by (auto simp add: rejectionOf_def loadEffect_def fetch_def onError_def
        split: promise.splits)
  have f: "runFilterSort initialWorld =
      initialWorld\<lparr>st := initialState\<lparr>filteredProducts := 2\<rparr>, store := [[], [], []]\<rparr>"
    by (simp add: runFilterSort_def initialWorld_def initialState_def filterSortEffect_def
        sortStage_def sortArray_def ratingStage_def priceStage_def categoryStage_def
        searchStage_def stage_def copyArray_def alloc_def arraySort_def Let_def)
  have m: "mount answer =
      (Fulfilled (),
       \<lparr>st = initialState\<lparr>filteredProducts := 2, loading := False\<rparr>, store = [[], [], []],
        console = [(''Error fetching products:'', e)], requests = 1\<rparr>)"
    unfolding mount_def f l
    by (simp add: Let_def initialWorld_def initialState_def)
  show ?thesis
    by (simp add: l m failureHandled_def catalog_def displayed_def initialState_def)
qed

section \<open>The claims\<close>

subsection \<open>The filter stages\<close>

text \<open>
  Claim C1. The price filter is meant to keep the products whose price lies in a selected
  band; with the band \<^verbatim>\<open>$0-$50\<close> and a catalog priced 10, 60 and 200 the product
  priced 10 should remain. The code keeps no product there: \<^verbatim>\<open>replace\<close> removes only
  the first dollar sign, so the upper bound of the band is \<^verbatim>\<open>Number("$50")\<close>, which
  is NaN, and no price is below it.
\<close>

theorem priceStage_band_0_50_scenario:
  "arrayAt (priceStage [''$0-$50'']
      (0, [[item ''a'' 10 4 120, item ''b'' 60 4 120, item ''c'' 200 4 120]])) = [] \<and>
   priceBounds ''$0-$50'' = [Fin 0, NaN] \<and>
   \<not> inPriceRange (item ''a'' 10 4 120) ''$0-$50''"
proof -
  have "matchesPrice [''$0-$50''] p = False" for p
    by (rule matchesPrice_options) (simp add: priceRangeOptions_def)
  then have "arrayAt (priceStage [''$0-$50'']
      (0, [[item ''a'' 10 4 120, item ''b'' 60 4 120, item ''c'' 200 4 120]])) = []"
    by (simp add: priceStage_def arrayAt_stage keepWhen_def)
  then show ?thesis
    by (simp add: priceBounds_0_50 inPriceRange_0_50)
qed

text \<open>
  Claim C3, as amended. For a search string that is not empty, the text filter keeps
  exactly the products whose lower-cased title contains the lower-cased search string,
  both lower-cased by \<^verbatim>\<open>toLowerCase\<close>. When the search string and the titles of the
  catalog are plain (lower-casing can change their letters A to Z only), these are
  exactly the products of which the search string is a case-insensitive substring of the
  title: the array the stage produces is the former one restricted to them, in the same
  order.
\<close>

theorem searchStage_keeps_lowercase_matches:
  assumes "query \<noteq> []"
  shows "arrayAt (searchStage query (r, h)) =
           filter (\<lambda>p. str_includes (toLowerCase (title p)) (toLowerCase query)) (h ! r) \<and>
         (isPlain query \<and> list_all (\<lambda>p. isPlain (title p)) (h ! r) \<longrightarrow>
            arrayAt (searchStage query (r, h)) =
              filter (\<lambda>p. caseInsensitiveSubstring query (title p)) (h ! r))"
proof -
  have stage: "arrayAt (searchStage query (r, h)) = filter (matchesSearch query) (h ! r)"
    using assms by (simp add: searchStage_def arrayAt_stage keepWhen_def arrayAt_pair)
  have "matchesSearch query = (\<lambda>p. str_includes (toLowerCase (title p)) (toLowerCase query))"
    by (intro ext) (simp add: matchesSearch_def)
  then have general: "arrayAt (searchStage query (r, h)) =
      filter (\<lambda>p. str_includes (toLowerCase (title p)) (toLowerCase query)) (h ! r)"
    using stage by simp
  have "filter (matchesSearch query) (h ! r) =
          filter (\<lambda>p. caseInsensitiveSubstring query (title p)) (h ! r)"
    if "isPlain query" and "list_all (\<lambda>p. isPlain (title p)) (h ! r)"
  proof (rule filter_cong [OF refl])
    fix p assume "p \<in> set (h ! r)"
    then have "isPlain (title p)" using that(2) by (simp add: list_all_iff)
    then show "matchesSearch query p = caseInsensitiveSubstring query (title p)"
      by (rule matchesSearch_plain [OF that(1)])
  qed
  with general stage show ?thesis by simp
qed

theorem searchStage_keeps_lowercase_matches_witness:
  "utf16 ''sHi'' \<noteq> [] \<and> isPlain (utf16 ''sHi'') \<and>
   list_all (\<lambda>p. isPlain (title p))
     [item ''T-Shirt'' 10 4 120, item ''Gold Ring'' 60 4 120,
      itemTitled (utf16 ''QLED '' @ [8211] @ utf16 '' FISHING rod'')] \<and>
   arrayAt (searchStage (utf16 ''sHi'')
      (0, [[item ''T-Shirt'' 10 4 120, item ''Gold Ring'' 60 4 120,
            itemTitled (utf16 ''QLED '' @ [8211] @ utf16 '' FISHING rod'')]]))
     = [item ''T-Shirt'' 10 4 120,
        itemTitled (utf16 ''QLED '' @ [8211] @ utf16 '' FISHING rod'')]"
proof -
  let ?dash = "itemTitled (utf16 ''QLED '' @ [8211] @ utf16 '' FISHING rod'')"
  let ?xs = "[item ''T-Shirt'' 10 4 120, item ''Gold Ring'' 60 4 120, ?dash]"
  have ne: "utf16 ''sHi'' \<noteq> []" by (simp add: utf16_def)
  have pq: "isPlain (utf16 ''sHi'')" by (simp add: utf16_def isPlain_def plainUnit_def)
  have dash: "plainUnit 8211"
    by (simp add: plainUnit_def isHighSurrogate_def isLowSurrogate_def lowerCodePoint_def
        lowerRuns_def lowerRunsBeyondAscii_def)
  have pt: "list_all (\<lambda>p. isPlain (title p)) ?xs"
    using dash by (simp add: utf16_def isPlain_def item_def itemTitled_def) (simp add: plainUnit_def)
  have pt': "list_all (\<lambda>p. isPlain (title p)) ([?xs] ! 0)"
    using pt by simp
  have "arrayAt (searchStage (utf16 ''sHi'') (0, [?xs])) =
          filter (\<lambda>p. caseInsensitiveSubstring (utf16 ''sHi'') (title p)) ([?xs] ! 0)"
    using searchStage_keeps_lowercase_matches [OF ne, of 0 "[?xs]"] pq pt' by blast
  also have "[?xs] ! 0 = ?xs" by simp
  also have "filter (\<lambda>p. caseInsensitiveSubstring (utf16 ''sHi'') (title p)) ?xs
               = [item ''T-Shirt'' 10 4 120, ?dash]"
    by (simp add: caseInsensitiveSubstring_def equalIgnoringCase_def sameLetter_def
        utf16_def item_def itemTitled_def upt_rec)
  finally show ?thesis using ne pq pt by simp
qed

text \<open>
  The claim as first stated, for every search string, fails on a title that ends with a
  capital sigma: the title of a capital alpha and a capital sigma contains the search
  string of a capital sigma as it stands, but lower-cased the title ends with a final
  sigma and the search string is a small sigma, so the product is dropped.
\<close>

theorem searchStage_final_sigma_counterexample:
  "[931] \<noteq> ([] :: jsstring) \<and>
   caseInsensitiveSubstring [931] (title (itemTitled [913, 931])) \<and>
   arrayAt (searchStage [931] (0, [[itemTitled [913, 931]]])) = []"
proof -
  have "caseInsensitiveSubstring [931] (title (itemTitled [913, 931]))"
    by (simp add: itemTitled_def caseInsensitiveSubstring_def equalIgnoringCase_def
        sameLetter_def)
  moreover have "\<not> matchesSearch [931] (itemTitled [913, 931])"
    by (simp add: matchesSearch_def itemTitled_def toLowerCase_alpha_sigma toLowerCase_sigma)
  then have "arrayAt (searchStage [931] (0, [[itemTitled [913, 931]]])) = []"
    by (simp add: searchStage_def arrayAt_stage keepWhen_def arrayAt_pair)
  ultimately show ?thesis by simp
qed

text \<open>
  Claim C4. For a selection of rating bands that is not empty and drawn from the bands
  \<^verbatim>\<open>5\<close>, \<^verbatim>\<open>4+\<close> and \<^verbatim>\<open>3+\<close>, the rating filter keeps exactly the products whose
  rating value is at least the minimum of one selected band (5, 4 and 3).
\<close>

theorem ratingStage_keeps_products_meeting_a_band:
  assumes "bands \<noteq> []" and "set bands \<subseteq> set ratingOptions"
  shows "arrayAt (ratingStage bands (r, h)) = filter (\<lambda>p. list_ex (meetsBand p) bands) (h ! r)"
proof -
  have "matchesRating bands = (\<lambda>p. list_ex (meetsBand p) bands)"
    by (intro ext) (rule matchesRating_options [OF assms(2)])
  then show ?thesis
    using assms(1) by (simp add: ratingStage_def arrayAt_stage keepWhen_def arrayAt_pair)
qed

theorem ratingStage_keeps_products_meeting_a_band_witness:
  "[''5'', ''4+''] \<noteq> [] \<and> set [''5'', ''4+''] \<subseteq> set ratingOptions \<and>
   arrayAt (ratingStage [''5'', ''4+'']
      (0, [[item ''a'' 10 (39 / 10) 120, item ''b'' 60 4 70, item ''c'' 200 (47 / 10) 5]]))
     = [item ''b'' 60 4 70, item ''c'' 200 (47 / 10) 5]"
proof -
  let ?xs = "[item ''a'' 10 (39 / 10) 120, item ''b'' 60 4 70, item ''c'' 200 (47 / 10) 5]"
  have ne: "[''5'', ''4+''] \<noteq> []" by simp
  have sub: "set [''5'', ''4+''] \<subseteq> set ratingOptions" by (simp add: ratingOptions_def)
  have "arrayAt (ratingStage [''5'', ''4+''] (0, [?xs])) =
          filter (\<lambda>p. list_ex (meetsBand p) [''5'', ''4+'']) ([?xs] ! 0)"
    by (rule ratingStage_keeps_products_meeting_a_band [OF ne sub])
  also have "[?xs] ! 0 = ?xs" by simp
  also have "filter (\<lambda>p. list_ex (meetsBand p) [''5'', ''4+'']) ?xs
               = [item ''b'' 60 4 70, item ''c'' 200 (47 / 10) 5]"
    by (simp add: meetsBand_def bandMinimum_def item_def)
  finally show ?thesis using ne sub by simp
qed

text \<open>
  Claim C9. For a selection of price ranges that is not empty and drawn from the four
  ranges the sidebar offers, the price filter keeps no product at all. A bounded range
  has the upper bound \<^verbatim>\<open>Number\<close> of a string that still begins with a dollar sign,
  which is NaN; the range \<^verbatim>\<open>$200+\<close> has the lower bound \<^verbatim>\<open>Number("200+")\<close>, which
  is NaN; and no comparison with NaN holds.
\<close>

theorem priceStage_offered_ranges_keep_nothing:
  assumes "ranges \<noteq> []" and "set ranges \<subseteq> set priceRangeOptions"
  shows "arrayAt (priceStage ranges (r, h)) = [] \<and>
         priceBounds ''$0-$50'' = [Fin 0, Number ''$50''] \<and>
         priceBounds ''$50-$100'' = [Fin 50, Number ''$100''] \<and>
         priceBounds ''$100-$200'' = [Fin 100, Number ''$200''] \<and>
         priceBounds ''$200+'' = [Number ''200+''] \<and>
         Number ''$50'' = NaN \<and> Number ''$100'' = NaN \<and> Number ''$200'' = NaN \<and>
         Number ''200+'' = NaN \<and>
         (\<forall>x. \<not> js_ge x NaN \<and> \<not> js_le x NaN)"
proof -
  have "matchesPrice ranges p = False" for p
    by (rule matchesPrice_options [OF assms(2)])
  then have "arrayAt (priceStage ranges (r, h)) = []"
    using assms(1) by (simp add: priceStage_def arrayAt_stage keepWhen_def)
  moreover have "Number ''$50'' = NaN" by code_simp
  moreover have "Number ''$100'' = NaN" by code_simp
  moreover have "Number ''$200'' = NaN" by code_simp
  moreover have "Number ''200+'' = NaN" by code_simp
  ultimately show ?thesis
    by (simp add: priceBounds_0_50 priceBounds_50_100 priceBounds_100_200 priceBounds_200
        js_le_NaN_right js_ge_NaN_right)
qed

theorem priceStage_offered_ranges_keep_nothing_witness:
  "[''$50-$100'', ''$200+''] \<noteq> [] \<and> set [''$50-$100'', ''$200+''] \<subseteq> set priceRangeOptions \<and>
   arrayAt (priceStage [''$50-$100'', ''$200+'']
      (0, [[item ''a'' 10 4 120, item ''b'' 60 4 120, item ''c'' 200 4 120]])) = []"
proof -
  have ne: "[''$50-$100'', ''$200+''] \<noteq> []" by simp
  have sub: "set [''$50-$100'', ''$200+''] \<subseteq> set priceRangeOptions"
    by (simp add: priceRangeOptions_def)
  show ?thesis
    using priceStage_offered_ranges_keep_nothing [OF ne sub] ne sub by simp
qed

subsection \<open>Toggling a filter option\<close>

text \<open>
  Claim C7. One call of \<^verbatim>\<open>handleFilterChange\<close> toggles the option in the selection
  its category names (removes it if present, adds it if absent) and leaves the other two
  selections as they are; two calls in a row with the same category and option give each
  selection its original contents back.
\<close>

theorem handleFilterChange_toggles:
  "set (selectedCategories (handleFilterChange cat opt s)) =
     (if cat = ''Category'' then toggleSet opt (set (selectedCategories s))
      else set (selectedCategories s)) \<and>
   set (selectedPriceRanges (handleFilterChange cat opt s)) =
     (if cat = ''Price Range'' then toggleSet opt (set (selectedPriceRanges s))
      else set (selectedPriceRanges s)) \<and>
   set (selectedRatings (handleFilterChange cat opt s)) =
     (if cat = ''Rating'' then toggleSet opt (set (selectedRatings s))
      else set (selectedRatings s)) \<and>
   set (selectedCategories (handleFilterChange cat opt (handleFilterChange cat opt s))) =
     set (selectedCategories s) \<and>
   set (selectedPriceRanges (handleFilterChange cat opt (handleFilterChange cat opt s))) =
     set (selectedPriceRanges s) \<and>
   set (selectedRatings (handleFilterChange cat opt (handleFilterChange cat opt s))) =
     set (selectedRatings s)"
proof -
  have once: "set (toggle opt prev) = toggleSet opt (set prev)" for prev
    by (rule set_toggle)
  have twice: "toggleSet opt (toggleSet opt S) = S" for S
    by (rule toggleSet_twice)
  show ?thesis
  proof (cases "cat = ''Category''")
    case True
    then show ?thesis by (simp add: handleFilterChange_def once twice)
  next
    case False
    then show ?thesis by (simp add: handleFilterChange_def once twice)
  qed
qed

theorem handleFilterChange_toggles_witness:
  "set (selectedRatings (handleFilterChange ''Rating'' ''4+''
      (initialState\<lparr>selectedRatings := [''5'', ''4+'']\<rparr>))) = {''5''} \<and>
   set (selectedRatings (handleFilterChange ''Rating'' ''4+'' (handleFilterChange ''Rating'' ''4+''
      (initialState\<lparr>selectedRatings := [''5'', ''4+'']\<rparr>)))) = {''5'', ''4+''} \<and>
   set (selectedCategories (handleFilterChange ''Rating'' ''4+''
      (initialState\<lparr>selectedRatings := [''5'', ''4+'']\<rparr>))) = {}"
  using handleFilterChange_toggles
    [of "''Rating''" "''4+''" "initialState\<lparr>selectedRatings := [''5'', ''4+'']\<rparr>"]
  by (simp add: toggleSet_def initialState_def handleFilterChange_def toggle_def)

text \<open>
  Claim C10. A call of \<^verbatim>\<open>handleFilterChange\<close> with a category name other than
  \<^verbatim>\<open>Category\<close>, \<^verbatim>\<open>Price Range\<close> and \<^verbatim>\<open>Rating\<close> changes nothing: the state after
  the call is the state before it.
\<close>

theorem handleFilterChange_unknown_category:
  assumes "cat \<notin> {''Category'', ''Price Range'', ''Rating''}"
  shows "handleFilterChange cat opt s = s"
  using assms by (simp add: handleFilterChange_def)

theorem handleFilterChange_unknown_category_witness:
  "''Brand'' \<notin> {''Category'', ''Price Range'', ''Rating''} \<and>
   handleFilterChange ''Brand'' ''4+'' (initialState\<lparr>selectedRatings := [''5'']\<rparr>)
     = initialState\<lparr>selectedRatings := [''5'']\<rparr>"
proof -
  have h: "''Brand'' \<notin> {''Category'', ''Price Range'', ''Rating''}" by simp
  show ?thesis
    using handleFilterChange_unknown_category [OF h] h by simp
qed

subsection \<open>Sorting and the whole effect\<close>

text \<open>
  Claim C5. The sort stage orders the array by the comparator of the sort option:
  \<^verbatim>\<open>price-low-high\<close> ascending by price, \<^verbatim>\<open>price-high-low\<close> descending by price,
  \<^verbatim>\<open>rating\<close> descending by rating value, every other option descending by number of
  reviews; products that compare equal keep their encounter order. With the products
  priced 10 and 90 of the scenario and \<^verbatim>\<open>price-low-high\<close> the product priced 10 comes
  first.
\<close>

theorem sortStage_orders_by_option:
  assumes "r < length h"
  shows "stableAscending price (h ! r) (arrayAt (sortStage ''price-low-high'' (r, h))) \<and>
         stableDescending price (h ! r) (arrayAt (sortStage ''price-high-low'' (r, h))) \<and>
         stableDescending (\<lambda>p. rate (rating p)) (h ! r) (arrayAt (sortStage ''rating'' (r, h))) \<and>
         (opt \<notin> {''price-low-high'', ''price-high-low'', ''rating''} \<longrightarrow>
            stableDescending (\<lambda>p. count_rating (rating p)) (h ! r) (arrayAt (sortStage opt (r, h)))) \<and>
         arrayAt (sortStage ''price-low-high''
            (0, [[item ''a'' 10 3 50, item ''b'' 90 (9 / 2) 10]]))
           = [item ''a'' 10 3 50, item ''b'' 90 (9 / 2) 10]"
proof -
  have sorted_array: "arrayAt (sortStage k (r, h)) = arraySort (sortComparator k) (h ! r)" for k
    using arrayAt_sortStage [of "(r, h)" k] assms by (simp add: arrayAt_pair)
  have "stableAscending price (h ! r) (arrayAt (sortStage ''price-low-high'' (r, h)))"
    by (simp add: sorted_array sortComparator_def arraySort_ascending)
  moreover have "stableDescending price (h ! r) (arrayAt (sortStage ''price-high-low'' (r, h)))"
    by (simp add: sorted_array sortComparator_def arraySort_descending)
  moreover have "stableDescending (\<lambda>p. rate (rating p)) (h ! r)
                   (arrayAt (sortStage ''rating'' (r, h)))"
    by (simp add: sorted_array sortComparator_def arraySort_descending)
  moreover have "stableDescending (\<lambda>p. count_rating (rating p)) (h ! r)
                   (arrayAt (sortStage opt (r, h)))"
    if "opt \<notin> {''price-low-high'', ''price-high-low'', ''rating''}"
    using that by (simp add: sorted_array sortComparator_def arraySort_descending)
  moreover have "arrayAt (sortStage ''price-low-high''
                    (0, [[item ''a'' 10 3 50, item ''b'' 90 (9 / 2) 10]]))
                   = [item ''a'' 10 3 50, item ''b'' 90 (9 / 2) 10]"
    by (simp add: sortStage_def sortArray_def arrayAt_def arraySort_def sortComparator_def
        item_def)
  ultimately show ?thesis by blast
qed

theorem sortStage_orders_by_option_witness:
  "(0::nat) < length [[item ''a'' 10 3 50, item ''b'' 90 (9 / 2) 10, item ''c'' 5 3 50]] \<and>
   ''popularity'' \<notin> {''price-low-high'', ''price-high-low'', ''rating''} \<and>
   stableDescending (\<lambda>p. count_rating (rating p))
     [item ''a'' 10 3 50, item ''b'' 90 (9 / 2) 10, item ''c'' 5 3 50]
     (arrayAt (sortStage ''popularity''
        (0, [[item ''a'' 10 3 50, item ''b'' 90 (9 / 2) 10, item ''c'' 5 3 50]]))) \<and>
   stableAscending price
     [item ''a'' 10 3 50, item ''b'' 90 (9 / 2) 10, item ''c'' 5 3 50]
     (arrayAt (sortStage ''price-low-high''
        (0, [[item ''a'' 10 3 50, item ''b'' 90 (9 / 2) 10, item ''c'' 5 3 50]])))"
proof -
  have v: "(0::nat) < length [[item ''a'' 10 3 50, item ''b'' 90 (9 / 2) 10, item ''c'' 5 3 50]]"
    by simp
  have o: "''popularity'' \<notin> {''price-low-high'', ''price-high-low'', ''rating''}"
    by simp
  show ?thesis
    using sortStage_orders_by_option [OF v, of "''popularity''"] v o by simp
qed

text \<open>
  Claim C2. With an empty search string, three empty selections and the sort option
  \<^verbatim>\<open>popularity\<close>, the displayed list the effect produces is the catalog sorted in
  descending order of the number of reviews, ties in encounter order; it is the only
  list that is so.
\<close>

theorem default_selection_shows_catalog_by_popularity:
  assumes "searchTerm s = []" and "selectedCategories s = []"
    and "selectedPriceRanges s = []" and "selectedRatings s = []"
    and "sortOption s = ''popularity''"
  shows "stableDescending (\<lambda>p. count_rating (rating p)) (catalog (s, h))
           (displayed (filterSortEffect s h)) \<and>
         (stableDescending (\<lambda>p. count_rating (rating p)) (catalog (s, h)) ys \<longrightarrow>
            ys = displayed (filterSortEffect s h))"
proof -
  have "selected s (h ! products s) = h ! products s"
    using assms by (simp add: selected_def keepWhen_def)
  moreover have "sortComparator (sortOption s) = (\<lambda>a b. count_rating (rating b) - count_rating (rating a))"
    using assms by (simp add: sortComparator_def)
  ultimately have "displayed (filterSortEffect s h) =
      arraySort (\<lambda>a b. count_rating (rating b) - count_rating (rating a)) (catalog (s, h))"
    by (simp add: filterSortEffect_displayed catalog_def)
  then show ?thesis
    by (simp add: arraySort_descending [of "\<lambda>p. count_rating (rating p)"])
qed

theorem default_selection_shows_catalog_by_popularity_witness:
  "searchTerm initialState = [] \<and> selectedCategories initialState = [] \<and>
   selectedPriceRanges initialState = [] \<and> selectedRatings initialState = [] \<and>
   sortOption initialState = ''popularity'' \<and>
   displayed (filterSortEffect initialState
      [[item ''a'' 10 3 50, item ''b'' 90 (9 / 2) 10, item ''c'' 5 3 120, item ''d'' 7 2 50], []])
     = [item ''c'' 5 3 120, item ''a'' 10 3 50, item ''d'' 7 2 50, item ''b'' 90 (9 / 2) 10]"
proof -
  let ?h = "[[item ''a'' 10 3 50, item ''b'' 90 (9 / 2) 10, item ''c'' 5 3 120, item ''d'' 7 2 50], []]"
  let ?ys = "[item ''c'' 5 3 120, item ''a'' 10 3 50, item ''d'' 7 2 50, item ''b'' 90 (9 / 2) 10]"
  have a: "searchTerm initialState = []" "selectedCategories initialState = []"
    "selectedPriceRanges initialState = []" "selectedRatings initialState = []"
    "sortOption initialState = ''popularity''"
    by (simp_all add: initialState_def)
  have "stableDescending (\<lambda>p. count_rating (rating p)) (catalog (initialState, ?h)) ?ys"
    by (simp add: stableDescending_def sortedDescendingBy_def keepsEncounterOrder_def
        catalog_def initialState_def item_def)
  then have "?ys = displayed (filterSortEffect initialState ?h)"
    using default_selection_shows_catalog_by_popularity [OF a, of ?h ?ys] by simp
  then show ?thesis using a by simp
qed

text \<open>
  Claim C8. The effect does not touch the catalog: the state still refers to the same
  catalog array, every array that existed before the effect is unchanged, and the
  displayed list holds no product more often than the catalog does (so none that the
  catalog lacks). Running the effect again on its own outcome displays the same list.
\<close>

theorem filterSortEffect_keeps_catalog:
  assumes "products s < length h" and "filterSortEffect s h = (s', h')"
  shows "products s' = products s \<and> take (length h) h' = h \<and>
         catalog (s', h') = catalog (s, h) \<and>
         mset (displayed (s', h')) \<subseteq># mset (catalog (s, h)) \<and>
         displayed (filterSortEffect s' h') = displayed (s', h')"
proof -
  have p: "products s' = products s"
    using filterSortEffect_products [of s h] assms(2) by simp
  have t: "take (length h) h' = h"
    using filterSortEffect_frame [of h s] assms(2) by simp
  have "h' ! products s = take (length h) h' ! products s"
    using assms(1) by simp
  then have c: "catalog (s', h') = catalog (s, h)"
    by (simp add: catalog_def p t)
  have others: "searchTerm s' = searchTerm s" "selectedCategories s' = selectedCategories s"
    "selectedPriceRanges s' = selectedPriceRanges s" "selectedRatings s' = selectedRatings s"
    "sortOption s' = sortOption s"
    using assms(2) by (auto simp add: filterSortEffect_def Let_def)
  have d: "displayed (s', h') = arraySort (sortComparator (sortOption s)) (selected s (catalog (s, h)))"
    using filterSortEffect_displayed [of s h] assms(2) by (simp add: catalog_def)
  have "selected s' = selected s"
    by (intro ext) (simp add: selected_def others)
  then have again: "displayed (filterSortEffect s' h') = displayed (s', h')"
    using c by (simp add: filterSortEffect_displayed d others catalog_def)
  have "mset (keepWhen b P xs) \<subseteq># mset xs" for b P and xs :: "product list"
    by (simp add: keepWhen_def)
  then have "mset (selected s xs) \<subseteq># mset xs" for xs
    unfolding selected_def by (meson subset_mset.order_trans)
  then have "mset (displayed (s', h')) \<subseteq># mset (catalog (s, h))"
    by (simp add: d mset_arraySort)
  with p t c again show ?thesis by simp
qed

theorem filterSortEffect_keeps_catalog_witness:
  "products (initialState\<lparr>selectedRatings := [''4+'']\<rparr>)
     < length [[item ''a'' 10 3 50, item ''b'' 90 (9 / 2) 10, item ''c'' 5 4 120], []] \<and>
   filterSortEffect (initialState\<lparr>selectedRatings := [''4+'']\<rparr>)
       [[item ''a'' 10 3 50, item ''b'' 90 (9 / 2) 10, item ''c'' 5 4 120], []]
     = (initialState\<lparr>selectedRatings := [''4+''], filteredProducts := 3\<rparr>,
        [[item ''a'' 10 3 50, item ''b'' 90 (9 / 2) 10, item ''c'' 5 4 120], [],
         [item ''a'' 10 3 50, item ''b'' 90 (9 / 2) 10, item ''c'' 5 4 120],
         [item ''c'' 5 4 120, item ''b'' 90 (9 / 2) 10]]) \<and>
   catalog (initialState\<lparr>selectedRatings := [''4+''], filteredProducts := 3\<rparr>,
        [[item ''a'' 10 3 50, item ''b'' 90 (9 / 2) 10, item ''c'' 5 4 120], [],
         [item ''a'' 10 3 50, item ''b'' 90 (9 / 2) 10, item ''c'' 5 4 120],
         [item ''c'' 5 4 120, item ''b'' 90 (9 / 2) 10]])
     = [item ''a'' 10 3 50, item ''b'' 90 (9 / 2) 10, item ''c'' 5 4 120] \<and>
   mset [item ''c'' 5 4 120, item ''b'' 90 (9 / 2) 10]
     \<subseteq># mset [item ''a'' 10 3 50, item ''b'' 90 (9 / 2) 10, item ''c'' 5 4 120]"
proof -
  let ?s = "initialState\<lparr>selectedRatings := [''4+'']\<rparr>"
  let ?xs = "[item ''a'' 10 3 50, item ''b'' 90 (9 / 2) 10, item ''c'' 5 4 120]"
  let ?h = "[?xs, []]"
  let ?s' = "initialState\<lparr>selectedRatings := [''4+''], filteredProducts := 3\<rparr>"
  let ?h' = "[?xs, [], ?xs, [item ''c'' 5 4 120, item ''b'' 90 (9 / 2) 10]]"
  have v: "products ?s < length ?h" by (simp add: initialState_def)
  have m: "matchesRating [''4+''] p = (4 \<le> rate (rating p))" for p
    by (simp add: matchesRating_def minRating_4 js_ge_def)
  have e: "filterSortEffect ?s ?h = (?s', ?h')"
    by (simp add: filterSortEffect_def sortStage_def sortArray_def ratingStage_def
        priceStage_def categoryStage_def searchStage_def stage_def filterArray_def
        copyArray_def alloc_def arraySort_def sortComparator_def Let_def m
        initialState_def item_def)
  have c: "catalog (?s, ?h) = ?xs" by (simp add: catalog_def initialState_def)
  have d: "displayed (?s', ?h') = [item ''c'' 5 4 120, item ''b'' 90 (9 / 2) 10]"
    by (simp add: displayed_def initialState_def)
  show ?thesis
    using filterSortEffect_keeps_catalog [OF v e] v e c d by simp
qed

subsection \<open>A failed request\<close>

text \<open>
  Claim C6. When the request for the catalog fails, the loading flag becomes false, the
  catalog and the displayed list stay empty, no error leaves the promise chain and one
  diagnostic is logged. The code does so when a promise is rejected, but it does not look
  at the status of the response: a response with status 500 whose body is an array of
  products is stored as the catalog and displayed, and nothing is logged.
\<close>

theorem non_success_response_is_loaded:
  "fetchFails (Fulfilled (Response 500 (Fulfilled [item ''a'' 10 4 120]))) \<and>
   \<not> failureHandled (mount (Fulfilled (Response 500 (Fulfilled [item ''a'' 10 4 120])))) \<and>
   mount (Fulfilled (Response 500 (Fulfilled [item ''a'' 10 4 120]))) =
     (Fulfilled (),
      \<lparr>st = initialState\<lparr>products := 3, filteredProducts := 4, loading := False\<rparr>,
       store = [[], [], [], [item ''a'' 10 4 120], [item ''a'' 10 4 120]],
       console = [], requests = 1\<rparr>)"
proof -
  let ?answer = "Fulfilled (Response 500 (Fulfilled [item ''a'' 10 4 120]))"
  have fails: "fetchFails ?answer"
    by (simp add: fetchFails_def ok_def)
  have first: "runFilterSort initialWorld =
      initialWorld\<lparr>st := initialState\<lparr>filteredProducts := 2\<rparr>, store := [[], [], []]\<rparr>"
    by (simp add: runFilterSort_def initialWorld_def initialState_def filterSortEffect_def
        sortStage_def sortArray_def ratingStage_def priceStage_def categoryStage_def
        searchStage_def stage_def copyArray_def alloc_def arraySort_def Let_def)
  have loaded: "loadEffect ?answer
        (initialWorld\<lparr>st := initialState\<lparr>filteredProducts := 2\<rparr>, store := [[], [], []]\<rparr>) =
      (Fulfilled (),
       \<lparr>st = initialState\<lparr>products := 3, filteredProducts := 3, loading := False\<rparr>,
        store = [[], [], [], [item ''a'' 10 4 120]], console = [], requests = 1\<rparr>)"
    by (simp add: loadEffect_def fetch_def onData_def alloc_def initialWorld_def
        initialState_def)
  have again: "runFilterSort
        \<lparr>st = initialState\<lparr>products := 3, filteredProducts := 3, loading := False\<rparr>,
         store = [[], [], [], [item ''a'' 10 4 120]], console = [], requests = 1\<rparr> =
      \<lparr>st = initialState\<lparr>products := 3, filteredProducts := 4, loading := False\<rparr>,
       store = [[], [], [], [item ''a'' 10 4 120], [item ''a'' 10 4 120]],
       console = [], requests = 1\<rparr>"
    by (simp add: runFilterSort_def initialState_def filterSortEffect_def
        sortStage_def sortArray_def ratingStage_def priceStage_def categoryStage_def
        searchStage_def stage_def copyArray_def alloc_def arraySort_def Let_def)
  have start: "products initialState = 0"
    by (simp add: initialState_def)
  have m: "mount ?answer =
     (Fulfilled (),
      \<lparr>st = initialState\<lparr>products := 3, filteredProducts := 4, loading := False\<rparr>,
       store = [[], [], [], [item ''a'' 10 4 120], [item ''a'' 10 4 120]],
       console = [], requests = 1\<rparr>)"
    unfolding mount_def Let_def first loaded
    using again by (simp add: start)
  have "\<not> failureHandled (mount ?answer)"
    unfolding m by (simp add: failureHandled_def)
  with fails m show ?thesis by simp
qed

end
